theory Spec2Isabelle
  imports Complex_Main "HOL-Library.Sublist" "HOL-Library.Char_ord" "HOL-Library.List_Lexorder"
begin

section \<open>Characters, strings and number printing\<close>

text \<open>
  Both programs work on \<^verbatim>\<open>std::string\<close>, modelled as \<^typ>\<open>string\<close> (a list of bytes).
  C++ \<^verbatim>\<open>int\<close> values are modelled as \<^typ>\<open>int\<close>: signed overflow is undefined in C++
  rather than wrapping, and the model describes the runs in which no \<^verbatim>\<open>int\<close> computation
  leaves the 32-bit range.  C++ \<^verbatim>\<open>double\<close> values are modelled as \<^typ>\<open>real\<close>; where a result
  depends on how \<^verbatim>\<open>double\<close> arithmetic rounds (the offsets of txt2png's offset method), the
  rounding is a parameter of the model.
\<close>

definition dquote :: char where
  "dquote = CHR 0x22"

definition backslash :: char where
  "backslash = CHR 0x5C"

text \<open>\<^verbatim>\<open>std::isspace\<close> in the default "C" locale: space, \<^verbatim>\<open>\t \n \v \f \r\<close>.\<close>

definition isspace :: "char \<Rightarrow> bool" where
  "isspace ch = (ch = CHR 0x20 \<or> ch = CHR 0x09 \<or> ch = CHR 0x0A \<or> ch = CHR 0x0B
                 \<or> ch = CHR 0x0C \<or> ch = CHR 0x0D)"

text \<open>txt2png.cpp, lines 66-74: erase the leading (trailing) run of whitespace.\<close>

definition ltrim :: "string \<Rightarrow> string" where
  "ltrim s = dropWhile isspace s"

definition rtrim :: "string \<Rightarrow> string" where
  "rtrim s = rev (dropWhile isspace (rev s))"

definition trim :: "string \<Rightarrow> string" where
  "trim s = rtrim (ltrim s)"

text \<open>Decimal printing of an \<^verbatim>\<open>int\<close>, as \<^verbatim>\<open>operator<<\<close> and \<^verbatim>\<open>std::to_string\<close> do.\<close>

function show_nat :: "nat \<Rightarrow> string" where
  "show_nat n = (if n < 10 then [char_of (48 + n)]
                 else show_nat (n div 10) @ [char_of (48 + n mod 10)])"
  by pat_completeness auto
termination
  by (relation "measure id") auto

declare show_nat.simps [simp del]

definition to_string :: "int \<Rightarrow> string" where
  "to_string i = (if i < 0 then CHR ''-'' # show_nat (nat (- i)) else show_nat (nat i))"

section \<open>txt2png: building the ImageMagick command\<close>

text \<open>
  txt2png.cpp, lines 78-86.  The loop over the characters of \<open>s\<close> appends to \<open>out\<close>;
  \<open>escape_loop\<close> is that loop with \<open>out\<close> as its accumulator.
\<close>

fun escape_loop :: "string \<Rightarrow> string \<Rightarrow> string" where
  "escape_loop out [] = out"
| "escape_loop out (c # cs) =
     escape_loop ((if c = backslash \<or> c = dquote then out @ [backslash] else out) @ [c]) cs"

definition escape_for_label :: "string \<Rightarrow> string" where
  "escape_for_label s = escape_loop [] s"

text \<open>txt2png.cpp, lines 220-239.\<close>

definition build_cmd_stroke ::
  "string \<Rightarrow> string \<Rightarrow> string \<Rightarrow> int \<Rightarrow> string \<Rightarrow> string \<Rightarrow> int \<Rightarrow> string \<Rightarrow> string" where
  \<open>build_cmd_stroke im_exe text font point_size fill_color outline_color outline_thickness out_path =
     im_exe
     @ '' -background none''
     @ '' -fill "'' @ fill_color @ ''"''
     @ '' -stroke "'' @ outline_color @ ''"''
     @ '' -strokewidth '' @ to_string outline_thickness
     @ (if font \<noteq> [] then '' -font "'' @ font @ ''"'' else [])
     @ '' -pointsize '' @ to_string point_size
     @ '' label:"'' @ escape_for_label text @ ''"''
     @ '' PNG32:"'' @ out_path @ ''"''\<close>

text \<open>
  txt2png.cpp, lines 266-270: the offsets of the shifted copies.  They are computed in
  \<^verbatim>\<open>double\<close> arithmetic with the \<^verbatim>\<open>cos\<close> and \<^verbatim>\<open>sin\<close> of the C library, and what they round to
  depends on the last bit of those results.  The model therefore takes this arithmetic
  from the machine: \<open>rnd\<close> rounds an exact result, or a decimal literal, to a \<^verbatim>\<open>double\<close>;
  \<open>cosd\<close> and \<open>sind\<close> are \<^verbatim>\<open>std::cos\<close> and \<^verbatim>\<open>std::sin\<close>.  A \<^verbatim>\<open>double\<close> is the real number it
  stands for; the conversion of an \<^verbatim>\<open>int\<close> and the literal \<^verbatim>\<open>2.0\<close> are exact.
\<close>

record double_arith =
  rnd :: "real \<Rightarrow> real"
  cosd :: "real \<Rightarrow> real"
  sind :: "real \<Rightarrow> real"

text \<open>
  \<open>c_round\<close> is \<^verbatim>\<open>static_cast<int>(std::round(x))\<close>, which is exact: the nearest integer,
  halfway cases away from zero.
\<close>

definition c_round :: "real \<Rightarrow> int" where
  "c_round x = (if x < 0 then - \<lfloor>- x + 1 / 2\<rfloor> else \<lfloor>x + 1 / 2\<rfloor>)"

text \<open>Line 268: \<^verbatim>\<open>(2.0 * 3.14159265358979323846 * k) / directions\<close>.\<close>

definition angle :: "double_arith \<Rightarrow> int \<Rightarrow> int \<Rightarrow> real" where
  "angle fp k directions =
     rnd fp (rnd fp (rnd fp (2 * rnd fp 3.14159265358979323846) * real_of_int k)
             / real_of_int directions)"

text \<open>Lines 269-270, with \<open>r\<close> the thickness as a \<^verbatim>\<open>double\<close> (line 266).\<close>

definition offset_dx :: "double_arith \<Rightarrow> int \<Rightarrow> int \<Rightarrow> int \<Rightarrow> int" where
  "offset_dx fp outline_thickness k directions =
     c_round (rnd fp (real_of_int outline_thickness * cosd fp (angle fp k directions)))"

definition offset_dy :: "double_arith \<Rightarrow> int \<Rightarrow> int \<Rightarrow> int \<Rightarrow> int" where
  "offset_dy fp outline_thickness k directions =
     c_round (rnd fp (real_of_int outline_thickness * sind fp (angle fp k directions)))"

text \<open>The text appended to the command by one pass through the loop body (line 271).\<close>

definition shifted_copy :: "int \<Rightarrow> int \<Rightarrow> string" where
  "shifted_copy dx dy =
     '' mpr:outline -background none -gravity center -geometry +'' @ to_string dx
     @ ''+'' @ to_string dy @ '' -compose over -composite''"

text \<open>The loop of lines 267-272, from \<open>k\<close> on, appending to \<open>cmd\<close>.\<close>

function offset_loop :: "double_arith \<Rightarrow> int \<Rightarrow> int \<Rightarrow> int \<Rightarrow> string \<Rightarrow> string" where
  "offset_loop fp k directions outline_thickness cmd =
     (if k < directions
      then offset_loop fp (k + 1) directions outline_thickness
             (cmd @ shifted_copy (offset_dx fp outline_thickness k directions)
                                 (offset_dy fp outline_thickness k directions))
      else cmd)"
  by pat_completeness auto
termination
  by (relation "measure (\<lambda>(fp, k, directions, t, cmd). nat (directions - k))") auto

declare offset_loop.simps [simp del]

text \<open>
  The command is built in three stages.  Lines 257-264: the label rendered in the outline
  colour, stored as \<^verbatim>\<open>mpr:outline\<close>, and loaded again as the canvas.
\<close>

definition outline_base :: "string \<Rightarrow> string \<Rightarrow> int \<Rightarrow> string \<Rightarrow> string \<Rightarrow> string" where
  \<open>outline_base im_exe font point_size outline_color esc =
     im_exe
     @ '' -background none''
     @ (if font \<noteq> [] then '' -font "'' @ font @ ''"'' else [])
     @ '' -pointsize '' @ to_string point_size
     @ '' -fill "'' @ outline_color @ ''"''
     @ '' label:"'' @ esc @ ''"''
     @ '' -write mpr:outline +delete ''
     @ '' mpr:outline''\<close>

text \<open>Lines 274-279: the label in the fill colour, composited last, and the output file.\<close>

definition fill_layer :: "string \<Rightarrow> int \<Rightarrow> string \<Rightarrow> string \<Rightarrow> string \<Rightarrow> string" where
  \<open>fill_layer font point_size fill_color esc out_path =
     '' ( -background none''
     @ (if font \<noteq> [] then '' -font "'' @ font @ ''"'' else [])
     @ '' -pointsize '' @ to_string point_size
     @ '' -fill "'' @ fill_color @ ''"''
     @ '' label:"'' @ esc @ ''" ) -gravity center -compose over -composite''
     @ '' PNG32:"'' @ out_path @ ''"''\<close>

definition build_cmd_offset ::
  "double_arith \<Rightarrow> string \<Rightarrow> string \<Rightarrow> string \<Rightarrow> int \<Rightarrow> string \<Rightarrow> string \<Rightarrow> int \<Rightarrow> int \<Rightarrow> string \<Rightarrow> string" where
  "build_cmd_offset fp im_exe text font point_size fill_color outline_color outline_thickness
       directions out_path =
     (let esc = escape_for_label text;
          cmd = outline_base im_exe font point_size outline_color esc;
          cmd = offset_loop fp 0 directions outline_thickness cmd
      in cmd @ fill_layer font point_size fill_color esc out_path)"

text \<open>
  Arithmetic without rounding error, for concrete runs.  It gives what \<^verbatim>\<open>double\<close>
  arithmetic gives wherever the results are exact, as at the angle 0, where the C library
  returns exactly 1 for the cosine and 0 for the sine.
\<close>

definition exact_arith :: double_arith where
  "exact_arith = \<lparr>rnd = (\<lambda>x. x), cosd = cos, sind = sin\<rparr>"

section \<open>txt2png: the font list\<close>

text \<open>
  \<^verbatim>\<open>std::getline\<close> applied repeatedly to a stream holding \<open>s\<close>: the lines between newline
  characters; a last line without a newline is still delivered, and nothing follows a
  final newline.  \<open>cur\<close> is the line being read.
\<close>

fun split_lines :: "string \<Rightarrow> string \<Rightarrow> string list" where
  "split_lines cur [] = (if cur = [] then [] else [cur])"
| "split_lines cur (c # cs) =
     (if c = CHR 0x0A then cur # split_lines [] cs else split_lines (cur @ [c]) cs)"

definition getlines :: "string \<Rightarrow> string list" where
  "getlines s = split_lines [] s"

text \<open>
  txt2png.cpp, lines 97-104: the name taken from one line of \<^verbatim>\<open>magick -list font\<close>.
  The regular expression \<^verbatim>\<open>^\s*Font:\s*(.+)\s*$\<close> matches a line made of whitespace,
  \<^verbatim>\<open>Font:\<close> and a remainder that splits into whitespace, a non-empty group without
  line terminators (the dot of ECMAScript excludes carriage return and line feed), and
  whitespace.  Whatever split the matcher picks, trimming the group gives the trimmed
  remainder; and when that is non-empty a split exists exactly if it holds no line
  terminator.  A name that trims to nothing is dropped by the caller in either case.
\<close>

definition im_font_name :: "string \<Rightarrow> string option" where
  "im_font_name line =
     (let l = dropWhile isspace line in
      if take 5 l = ''Font:''
      then (let name = trim (drop 5 l) in
            if CHR 0x0D \<in> set name \<or> CHR 0x0A \<in> set name then None else Some name)
      else None)"

fun im_fonts_loop :: "string list \<Rightarrow> string list \<Rightarrow> string list" where
  "im_fonts_loop fonts [] = fonts"
| "im_fonts_loop fonts (line # rest) =
     (case im_font_name line of
        Some name \<Rightarrow> im_fonts_loop (if name \<noteq> [] then fonts @ [name] else fonts) rest
      | None \<Rightarrow> im_fonts_loop fonts rest)"

text \<open>Lines 116-122: the family of one line of \<^verbatim>\<open>fc-list : family\<close>.\<close>

fun fc_fonts_loop :: "string list \<Rightarrow> string list \<Rightarrow> string list" where
  "fc_fonts_loop fonts [] = fonts"
| "fc_fonts_loop fonts (line # rest) =
     (let fam = trim (takeWhile (\<lambda>c. c \<noteq> CHR '':'') line)
      in fc_fonts_loop (if fam \<noteq> [] then fonts @ [fam] else fonts) rest)"

text \<open>Lines 124-127: keep the first occurrence of every name.\<close>

fun dedup_loop :: "string list \<Rightarrow> string list \<Rightarrow> string list" where
  "dedup_loop dedup [] = dedup"
| "dedup_loop dedup (f # fs) = dedup_loop (if f \<in> set dedup then dedup else dedup @ [f]) fs"

text \<open>
  Lines 90-133.  \<open>run_and_capture\<close> gives the standard output of a command (empty on
  failure); it stands for the external programs.
\<close>

definition collect_fonts :: "(string \<Rightarrow> string) \<Rightarrow> string \<Rightarrow> string list" where
  "collect_fonts run_and_capture im_exe =
     (let out = run_and_capture (im_exe @ '' -list font'');
          fonts = (if out \<noteq> [] then im_fonts_loop [] (getlines out) else [])
      in if fonts = []
         then (let out = run_and_capture ''fc-list : family''
               in if out \<noteq> []
                  then dedup_loop [] (fc_fonts_loop fonts (getlines out))
                  else fonts)
         else fonts)"

section \<open>txt2png: the batch driver\<close>

record Options =
  input_path :: string
  prefix :: string
  start_index :: int
  font_name :: string
  font_index :: int
  point_size :: int
  fill_color :: string
  outline_color :: string
  outline_thickness :: int
  list_fonts :: bool
  use_offset_outline :: bool
  offset_directions :: int
  dry_run :: bool
  im_exe :: string

text \<open>
  What a run has written: the lines sent to standard output and standard error, and,
  for txt2png, the commands handed to \<^verbatim>\<open>std::system\<close>, in order.
\<close>

record io =
  cout :: "string list"
  cerr :: "string list"

record txt2png_state = io +
  lineno :: int
  made :: int
  commands :: "string list"

text \<open>txt2png.cpp, lines 300-309: printing the fonts with the indices \<open>i + 1\<close>.\<close>

fun print_fonts_loop :: "nat \<Rightarrow> string list \<Rightarrow> string list" where
  "print_fonts_loop i [] = []"
| "print_fonts_loop i (f # fs) = (show_nat (i + 1) @ '': '' @ f) # print_fonts_loop (i + 1) fs"

definition main_list_fonts :: "string list \<Rightarrow> int \<times> io" where
  "main_list_fonts fonts =
     (if fonts = []
      then (4, \<lparr>cout = [], cerr = [''No fonts found via ImageMagick or fontconfig.'']\<rparr>)
      else (0, \<lparr>cout = print_fonts_loop 0 fonts, cerr = []\<rparr>))"

text \<open>
  txt2png.cpp, lines 336-345: the output path and the command for the trimmed text \<open>t\<close>
  of the line numbered \<open>n\<close>.
\<close>

definition line_cmd :: "double_arith \<Rightarrow> Options \<Rightarrow> string \<Rightarrow> int \<Rightarrow> string \<Rightarrow> string" where
  "line_cmd fp opt font n t =
     (let out_path = prefix opt @ to_string n @ ''.png''
      in if \<not> use_offset_outline opt
         then build_cmd_stroke (im_exe opt) t font (point_size opt) (fill_color opt)
                (outline_color opt) (outline_thickness opt) out_path
         else build_cmd_offset fp (im_exe opt) t font (point_size opt) (fill_color opt)
                (outline_color opt) (outline_thickness opt) (offset_directions opt) out_path)"

text \<open>
  txt2png.cpp, lines 329-364: the loop over the lines of the input file and the end of
  \<^verbatim>\<open>main\<close>.  \<open>system\<close> gives the return code of \<^verbatim>\<open>std::system\<close> for a command and \<open>fp\<close>
  is the arithmetic of the offset method; the result is the exit code of the program and
  the final state.
\<close>

fun txt2png_loop ::
  "double_arith \<Rightarrow> (string \<Rightarrow> int) \<Rightarrow> Options \<Rightarrow> string \<Rightarrow> string list \<Rightarrow> txt2png_state \<Rightarrow> int \<times> txt2png_state" where
  "txt2png_loop fp system opt font [] st =
     (0, if \<not> dry_run opt
         then st\<lparr>cerr := cerr st @ [''Wrote '' @ to_string (made st) @ '' PNG files.'']\<rparr>
         else st)"
| "txt2png_loop fp system opt font (line # rest) st =
     (let t = trim line in
      if t = [] then txt2png_loop fp system opt font rest (st\<lparr>lineno := lineno st + 1\<rparr>)
      else
        let cmd = line_cmd fp opt font (lineno st) t
        in if dry_run opt
           then txt2png_loop fp system opt font rest
                  (st\<lparr>cout := cout st @ [cmd], lineno := lineno st + 1\<rparr>)
           else
             let rc = system cmd;
                 st = st\<lparr>commands := commands st @ [cmd]\<rparr>
             in if rc \<noteq> 0
                then (7, st\<lparr>cerr := cerr st
                               @ [''Command failed (rc='' @ to_string rc @ ''): '' @ cmd]\<rparr>)
                else txt2png_loop fp system opt font rest
                       (st\<lparr>made := made st + 1, lineno := lineno st + 1\<rparr>))"

definition txt2png_init :: "Options \<Rightarrow> txt2png_state" where
  "txt2png_init opt =
     \<lparr>cout = [], cerr = [], lineno = start_index opt, made = 0, commands = []\<rparr>"

definition txt2png_batch ::
  "double_arith \<Rightarrow> (string \<Rightarrow> int) \<Rightarrow> Options \<Rightarrow> string \<Rightarrow> string list \<Rightarrow> int \<times> txt2png_state" where
  "txt2png_batch fp system opt font lines = txt2png_loop fp system opt font lines (txt2png_init opt)"

section \<open>text2png: options and colours\<close>

record TextOptions =
  font_name :: string
  font_size :: int
  text_r :: real
  text_g :: real
  text_b :: real
  outline_r :: real
  outline_g :: real
  outline_b :: real
  bg_r :: real
  bg_g :: real
  bg_b :: real
  bg_a :: real
  outline_width :: int
  padding :: int
  output_prefix :: string
  verbose :: bool

text \<open>text2png.cpp, lines 18-28: the default member initialisers.\<close>

definition default_TextOptions :: TextOptions where
  "default_TextOptions =
     \<lparr>font_name = ''DejaVu Sans'', font_size = 48,
      text_r = 1, text_g = 1, text_b = 1,
      outline_r = 0, outline_g = 0, outline_b = 0,
      bg_r = 0, bg_g = 0, bg_b = 0, bg_a = 0,
      outline_width = 2, padding = 20, output_prefix = ''output'', verbose = False\<rparr>"

text \<open>
  The conversion \<^verbatim>\<open>%02x\<close> of \<^verbatim>\<open>sscanf\<close>, after the C standard (fscanf, conversion
  specifier x, field width 2): white space is skipped; the input item is the longest
  run of at most two characters that is, or begins, an optionally signed hexadecimal number
  with an optional \<^verbatim>\<open>0x\<close>; the directive fails when the item is not a complete number.
  A minus sign negates in \<^verbatim>\<open>unsigned int\<close>.  The result is the value and the unread
  rest of the input, or \<open>None\<close> when the directive fails.  C libraries differ on an item
  \<^verbatim>\<open>0x\<close> cut off by the width: by the standard the directive fails, while the GNU C
  library reads the value 0 and goes on behind the \<^verbatim>\<open>x\<close>.  \<open>lenient\<close> says that the library
  does the latter.
\<close>

definition hexval :: "char \<Rightarrow> nat option" where
  "hexval c =
     (let n = (of_char c :: nat) in
      if 48 \<le> n \<and> n \<le> 57 then Some (n - 48)
      else if 97 \<le> n \<and> n \<le> 102 then Some (n - 87)
      else if 65 \<le> n \<and> n \<le> 70 then Some (n - 55)
      else None)"

definition scan_x2 :: "bool \<Rightarrow> string \<Rightarrow> (nat \<times> string) option" where
  "scan_x2 lenient s =
     (case dropWhile isspace s of
        [] \<Rightarrow> None
      | c # r \<Rightarrow>
          if c = CHR ''+'' \<or> c = CHR ''-''
          then (case r of
                  [] \<Rightarrow> None
                | d # r' \<Rightarrow>
                    (case hexval d of
                       None \<Rightarrow> None
                     | Some v \<Rightarrow> Some (if c = CHR ''-'' then (2 ^ 32 - v) mod 2 ^ 32 else v, r')))
          else if c = CHR ''0'' \<and> (case r of [] \<Rightarrow> False | d # r' \<Rightarrow> d = CHR ''x'' \<or> d = CHR ''X'')
          then (if lenient then Some (0, tl r) else None)
          else (case hexval c of
                  None \<Rightarrow> None
                | Some v1 \<Rightarrow>
                    (case r of
                       [] \<Rightarrow> Some (v1, [])
                     | d # r' \<Rightarrow>
                         (case hexval d of
                            None \<Rightarrow> Some (v1, r)
                          | Some v2 \<Rightarrow> Some (16 * v1 + v2, r')))))"

text \<open>
  \<^verbatim>\<open>sscanf\<close> with \<open>n\<close> conversions \<^verbatim>\<open>%02x\<close>: the values assigned, in order, up to the
  first directive that fails; the number of them is what \<^verbatim>\<open>sscanf\<close> returns when it is
  positive.
\<close>

fun sscanf_x2 :: "bool \<Rightarrow> nat \<Rightarrow> string \<Rightarrow> nat list" where
  "sscanf_x2 lenient 0 s = []"
| "sscanf_x2 lenient (Suc n) s =
     (case scan_x2 lenient s of None \<Rightarrow> [] | Some (v, r) \<Rightarrow> v # sscanf_x2 lenient n r)"

text \<open>Lines 300, 319, 338: \<^verbatim>\<open>if (color[0] == '#') color = color.substr(1)\<close>.\<close>

definition strip_hash :: "string \<Rightarrow> string" where
  "strip_hash color = (case color of c # cs \<Rightarrow> if c = CHR ''#'' then cs else color | [] \<Rightarrow> color)"

text \<open>
  text2png.cpp, lines 298-316: the handler of \<^verbatim>\<open>--text-color\<close>.  It takes the behaviour
  of the C library (\<open>lenient\<close>, for \<^verbatim>\<open>sscanf\<close>), the option's value, the options and the
  output so far, and gives both back; it has no exit.
\<close>

definition text_color_option :: "bool \<Rightarrow> string \<Rightarrow> TextOptions \<times> io \<Rightarrow> TextOptions \<times> io" where
  "text_color_option lenient arg = (\<lambda>(opts, out).
     let color = strip_hash arg in
     if length color = 6
     then (case sscanf_x2 lenient 3 color of
             [r, g, b] \<Rightarrow>
               (opts\<lparr>text_r := real r / 255, text_g := real g / 255, text_b := real b / 255\<rparr>,
                if verbose opts
                then out\<lparr>cout := cout out
                       @ [''Parsed: text-color = #'' @ color @ '' -> RGB('' @ show_nat r @ '',''
                          @ show_nat g @ '','' @ show_nat b @ '')'']\<rparr>
                else out)
           | _ \<Rightarrow> (opts, out\<lparr>cerr := cerr out
                       @ [''Warning: Could not parse text color: '' @ color]\<rparr>))
     else (opts, out\<lparr>cerr := cerr out
             @ [''Warning: Invalid text color format: '' @ color @ '' (expected #RRGGBB)'']\<rparr>))"

text \<open>Lines 317-335: the handler of \<^verbatim>\<open>--outline-color\<close>.\<close>

definition outline_color_option :: "bool \<Rightarrow> string \<Rightarrow> TextOptions \<times> io \<Rightarrow> TextOptions \<times> io" where
  "outline_color_option lenient arg = (\<lambda>(opts, out).
     let color = strip_hash arg in
     if length color = 6
     then (case sscanf_x2 lenient 3 color of
             [r, g, b] \<Rightarrow>
               (opts\<lparr>outline_r := real r / 255, outline_g := real g / 255,
                     outline_b := real b / 255\<rparr>,
                if verbose opts
                then out\<lparr>cout := cout out
                       @ [''Parsed: outline-color = #'' @ color @ '' -> RGB('' @ show_nat r @ '',''
                          @ show_nat g @ '','' @ show_nat b @ '')'']\<rparr>
                else out)
           | _ \<Rightarrow> (opts, out\<lparr>cerr := cerr out
                       @ [''Warning: Could not parse outline color: '' @ color]\<rparr>))
     else (opts, out\<lparr>cerr := cerr out
             @ [''Warning: Invalid outline color format: '' @ color @ '' (expected #RRGGBB)'']\<rparr>))"

text \<open>
  Lines 336-353: the handler of \<^verbatim>\<open>--bg-color\<close>.  The result of \<^verbatim>\<open>sscanf\<close> is not
  looked at: when fewer than three values are assigned, the code reads a variable that was
  never initialised, which is the result \<open>None\<close>.  The alpha starts at 255.
\<close>

definition bg_color_option :: "bool \<Rightarrow> string \<Rightarrow> TextOptions \<times> io \<Rightarrow> (TextOptions \<times> io) option" where
  "bg_color_option lenient arg = (\<lambda>(opts, out).
     let color = strip_hash arg in
     if length color = 6 \<or> length color = 8
     then (let vs = (if length color = 8 then sscanf_x2 lenient 4 color else sscanf_x2 lenient 3 color)
           in case vs of
                r # g # b # rest \<Rightarrow>
                  (let a = (case rest of [] \<Rightarrow> 255 | a' # _ \<Rightarrow> a')
                   in Some (opts\<lparr>bg_r := real r / 255, bg_g := real g / 255,
                                  bg_b := real b / 255, bg_a := real a / 255\<rparr>,
                            if verbose opts
                            then out\<lparr>cout := cout out
                                   @ [''Parsed: bg-color = #'' @ color @ '' -> RGB('' @ show_nat r
                                      @ '','' @ show_nat g @ '','' @ show_nat b @ ''), A=''
                                      @ show_nat a]\<rparr>
                            else out))
              | _ \<Rightarrow> None)
     else Some (opts, out))"

section \<open>text2png: listing the fonts\<close>

text \<open>
  \<^verbatim>\<open>std::set<std::string>\<close> keeps its elements in ascending order without repetition;
  the set is modelled by that sequence, and \<open>set_insert\<close> is \<^verbatim>\<open>insert\<close>.  Strings are
  compared as \<^verbatim>\<open>std::string\<close> does: lexicographically, byte by byte.
\<close>

fun set_insert :: "string \<Rightarrow> string list \<Rightarrow> string list" where
  "set_insert x [] = [x]"
| "set_insert x (y # ys) =
     (if x < y then x # y # ys else if x = y then y # ys else y # set_insert x ys)"

text \<open>Lines 71-79: the loop over the fonts; a font may have no family.\<close>

fun unique_fonts_loop :: "string list \<Rightarrow> string option list \<Rightarrow> string list" where
  "unique_fonts_loop unique_fonts [] = unique_fonts"
| "unique_fonts_loop unique_fonts (family # rest) =
     (case family of
        Some name \<Rightarrow> unique_fonts_loop (set_insert name unique_fonts) rest
      | None \<Rightarrow> unique_fonts_loop unique_fonts rest)"

text \<open>Lines 82-86: printing with an index that starts at 1.\<close>

fun print_unique_loop :: "int \<Rightarrow> string list \<Rightarrow> string list" where
  "print_unique_loop index [] = []"
| "print_unique_loop index (name # rest) =
     (to_string index @ '': '' @ name) # print_unique_loop (index + 1) rest"

text \<open>
  text2png.cpp, lines 54-94.  \<open>config_ok\<close> says whether FontConfig could be initialised,
  \<open>font_set\<close> is the result of \<^verbatim>\<open>FcFontList\<close>: nothing, or the family of each font.
\<close>

definition list_fonts :: "bool \<Rightarrow> string option list option \<Rightarrow> io" where
  "list_fonts config_ok font_set =
     (if \<not> config_ok then \<lparr>cout = [], cerr = [''Could not initialize FontConfig'']\<rparr>
      else case font_set of
             None \<Rightarrow> \<lparr>cout = [], cerr = []\<rparr>
           | Some fonts \<Rightarrow>
               \<lparr>cout = print_unique_loop 1 (unique_fonts_loop [] fonts), cerr = []\<rparr>)"

section \<open>text2png: rendering one line\<close>

record cairo_text_extents_t =
  x_bearing :: real
  y_bearing :: real
  width :: real
  height :: real
  x_advance :: real
  y_advance :: real

text \<open>
  The libraries text2png calls: FreeType, FontConfig and Cairo.  \<open>ft_init_fails\<close>: whether
  \<^verbatim>\<open>FT_Init_FreeType\<close> fails; \<open>fc_font_file\<close>: the file of the font matched for a name, if
  any; \<open>ft_new_face_fails\<close>: whether a font file cannot be loaded; \<open>text_extents\<close>: the
  measurement of a text in a font file at a size; \<open>write_to_png\<close>: the error of writing a
  file, if any.
\<close>

record backend =
  ft_init_fails :: bool
  fc_font_file :: "string \<Rightarrow> string option"
  ft_new_face_fails :: "string \<Rightarrow> bool"
  text_extents :: "string \<Rightarrow> int \<Rightarrow> string \<Rightarrow> cairo_text_extents_t"
  write_to_png :: "string \<Rightarrow> string option"

text \<open>
  The Cairo calls that make and draw on the image surface (lines 180-223), in the order
  the code makes them.
\<close>

datatype cairo_call =
    Image_surface_create int int
  | Set_source_rgba real real real real
  | Paint
  | Set_font_face string
  | Set_font_size int
  | Set_font_options
  | Move_to real real
  | Text_path string
  | Set_source_rgb real real real
  | Set_line_width int
  | Stroke_preserve
  | Fill
  | Surface_write_to_png string

text \<open>Lines 162-177: the size of the image before rounding.\<close>

definition full_width :: "cairo_text_extents_t \<Rightarrow> TextOptions \<Rightarrow> real" where
  "full_width extents opts =
     (let full_width = \<bar>x_bearing extents\<bar> + width extents + real_of_int (padding opts * 2)
                       + real_of_int (outline_width opts * 2)
      in if full_width < real_of_int (font_size opts) * 1.5
         then real_of_int (font_size opts) * 1.5
         else full_width)"

definition full_height :: "cairo_text_extents_t \<Rightarrow> TextOptions \<Rightarrow> real" where
  "full_height extents opts =
     (let full_height = \<bar>y_bearing extents\<bar> + height extents + real_of_int (padding opts * 2)
                        + real_of_int (outline_width opts * 2)
      in if full_height < real_of_int (font_size opts)
         then real_of_int (font_size opts) * 1.2
         else full_height)"

text \<open>Lines 180-182: \<^verbatim>\<open>static_cast<int>(ceil(...))\<close>, the size of the surface.\<close>

definition canvas_width :: "cairo_text_extents_t \<Rightarrow> TextOptions \<Rightarrow> int" where
  "canvas_width extents opts = \<lceil>full_width extents opts\<rceil>"

definition canvas_height :: "cairo_text_extents_t \<Rightarrow> TextOptions \<Rightarrow> int" where
  "canvas_height extents opts = \<lceil>full_height extents opts\<rceil>"

text \<open>Lines 202-203: where the text is put.\<close>

definition x_pos :: "cairo_text_extents_t \<Rightarrow> TextOptions \<Rightarrow> real" where
  "x_pos extents opts =
     real_of_int (padding opts + outline_width opts * 2) - x_bearing extents"

definition y_pos :: "cairo_text_extents_t \<Rightarrow> TextOptions \<Rightarrow> real" where
  "y_pos extents opts =
     real_of_int (padding opts + outline_width opts * 2) - y_bearing extents
     + real_of_int (font_size opts)"

text \<open>
  text2png.cpp, lines 96-240.  The function returns nothing; the model gives what it
  writes to standard error and the calls it makes on the image surface.
\<close>

definition render_text_to_png ::
  "backend \<Rightarrow> string \<Rightarrow> string \<Rightarrow> TextOptions \<Rightarrow> string list \<times> cairo_call list" where
  "render_text_to_png be text filename opts =
     (if ft_init_fails be then ([''Could not init FreeType''], [])
      else case fc_font_file be (font_name opts) of
        None \<Rightarrow> ([''Could not find font: '' @ font_name opts], [])
      | Some font_file \<Rightarrow>
          if ft_new_face_fails be font_file
          then ([''Could not load font file: '' @ font_file], [])
          else
            let extents = text_extents be font_file (font_size opts) text;
                calls =
                  [Image_surface_create (canvas_width extents opts) (canvas_height extents opts)]
                  @ (if bg_a opts > 0
                     then [Set_source_rgba (bg_r opts) (bg_g opts) (bg_b opts) (bg_a opts), Paint]
                     else [Set_source_rgba 0 0 0 0, Paint])
                  @ [Set_font_face font_file, Set_font_size (font_size opts), Set_font_options,
                     Move_to (x_pos extents opts) (y_pos extents opts),
                     Text_path text]
                  @ (if outline_width opts > 0
                     then [Set_source_rgb (outline_r opts) (outline_g opts) (outline_b opts),
                           Set_line_width (outline_width opts), Stroke_preserve]
                     else [])
                  @ [Set_source_rgb (text_r opts) (text_g opts) (text_b opts), Fill,
                     Surface_write_to_png filename]
            in case write_to_png be filename of
                 None \<Rightarrow> ([], calls)
               | Some status \<Rightarrow> ([''Error writing PNG: '' @ status], calls))"

section \<open>text2png: the batch driver\<close>

record text2png_state = io +
  line_number :: int
  surfaces :: "cairo_call list list"

text \<open>text2png.cpp, lines 383-395: the loop over the lines and the end of \<^verbatim>\<open>main\<close>.\<close>

fun text2png_loop ::
  "backend \<Rightarrow> TextOptions \<Rightarrow> string list \<Rightarrow> text2png_state \<Rightarrow> int \<times> text2png_state" where
  "text2png_loop be opts [] st = (0, st)"
| "text2png_loop be opts (line # rest) st =
     (if line \<noteq> []
      then
        let output_filename = output_prefix opts @ to_string (line_number st) @ ''.png'';
            (errs, calls) = render_text_to_png be line output_filename opts
        in text2png_loop be opts rest
             (st\<lparr>cerr := cerr st @ errs,
                 surfaces := surfaces st @ [calls],
                 cout := cout st @ [''Created: '' @ output_filename],
                 line_number := line_number st + 1\<rparr>)
      else text2png_loop be opts rest st)"

definition text2png_init :: text2png_state where
  "text2png_init = \<lparr>cout = [], cerr = [], line_number = 1, surfaces = []\<rparr>"

definition text2png_batch :: "backend \<Rightarrow> TextOptions \<Rightarrow> string list \<Rightarrow> int \<times> text2png_state" where
  "text2png_batch be opts lines = text2png_loop be opts lines text2png_init"

section \<open>The render jobs of the two batch drivers\<close>

text \<open>
  txt2png.cpp, lines 135-150: the default member initialisers of \<^verbatim>\<open>Options\<close>.
\<close>

definition default_Options :: Options where
  "default_Options =
     \<lparr>input_path = [], prefix = [], start_index = 1, Options.font_name = [], font_index = - 1,
      point_size = 64, fill_color = ''#FFFFFF'', outline_color = ''#000000'',
      outline_thickness = 4, Options.list_fonts = False, use_offset_outline = False,
      offset_directions = 36, dry_run = False, im_exe = []\<rparr>"

text \<open>
  The lines each loop renders, with the value its counter has at that line and the text
  handed to the renderer: the loop of txt2png.cpp, lines 332-359, and the loop of
  text2png.cpp, lines 385-392, with the calls left out.  txt2png trims the line, skips it when
  nothing is left, and counts every line; text2png skips a line that is empty and counts the
  lines it renders.
\<close>

fun txt2png_jobs :: "int \<Rightarrow> string list \<Rightarrow> (int \<times> string) list" where
  "txt2png_jobs n [] = []"
| "txt2png_jobs n (line # rest) =
     (if trim line = [] then txt2png_jobs (n + 1) rest
      else (n, trim line) # txt2png_jobs (n + 1) rest)"

fun text2png_jobs :: "int \<Rightarrow> string list \<Rightarrow> (int \<times> string) list" where
  "text2png_jobs n [] = []"
| "text2png_jobs n (line # rest) =
     (if line \<noteq> [] then (n, line) # text2png_jobs (n + 1) rest
      else text2png_jobs n rest)"



text \<open>
  Two environments for concrete runs: libraries in which FontConfig finds no file for any
  font name, and a \<^verbatim>\<open>std::system\<close> that fails, with wait status 256, on one command only.
\<close>

definition no_font_backend :: backend where
  "no_font_backend =
     \<lparr>ft_init_fails = False, fc_font_file = (\<lambda>name. None), ft_new_face_fails = (\<lambda>file. False),
      text_extents = (\<lambda>file size text. \<lparr>x_bearing = 0, y_bearing = 0, width = 0, height = 0,
         x_advance = 0, y_advance = 0\<rparr>),
      write_to_png = (\<lambda>file. None)\<rparr>"

definition fails_on :: "string \<Rightarrow> string \<Rightarrow> int" where
  "fails_on bad cmd = (if cmd = bad then 256 else 0)"

text \<open>
  A measurement as Cairo reports it for a small mark such as a full stop (6 by 6 pixels,
  sitting on the baseline), and libraries in which every font is found and every text
  has that measurement.
\<close>

definition period_extents :: cairo_text_extents_t where
  "period_extents =
     \<lparr>x_bearing = 0, y_bearing = - 6, width = 6, height = 6, x_advance = 15, y_advance = 0\<rparr>"

definition found_font_backend :: backend where
  "found_font_backend =
     \<lparr>ft_init_fails = False, fc_font_file = (\<lambda>name. Some ''DejaVuSans.ttf''),
      ft_new_face_fails = (\<lambda>file. False),
      text_extents = (\<lambda>file size text. period_extents),
      write_to_png = (\<lambda>file. None)\<rparr>"


text \<open>
  A system on which ImageMagick lists no font and \<^verbatim>\<open>fc-list\<close> reports one family twice,
  once for each style.
\<close>

definition fontconfig_listing :: "string \<Rightarrow> string" where
  "fontconfig_listing cmd =
     (if cmd = ''fc-list : family''
      then ''DejaVu Sans:style=Book\<newline>Noto Sans\<newline>DejaVu Sans:style=Bold\<newline>''
      else [])"



section \<open>Properties of the command builders\<close>

lemma escape_loop_concat:
  "escape_loop out s =
     out @ concat (map (\<lambda>c. if c = backslash \<or> c = dquote then [backslash, c] else [c]) s)"
  by (induction s arbitrary: out) auto

lemma length_concat_escape_le:
  "length (concat (map (\<lambda>c. if c = backslash \<or> c = dquote then [backslash, c] else [c]) s))
     \<le> 2 * length s"
  by (induction s) auto

text \<open>The loop of the offset method appends one \<open>shifted_copy\<close> for each \<open>k\<close> up to \<open>d - 1\<close>.\<close>

lemma offset_loop_closed:
  "offset_loop fp k d t cmd =
     cmd @ concat (map (\<lambda>j. shifted_copy (offset_dx fp t j d) (offset_dy fp t j d)) [k..d - 1])"
proof (induction fp k d t cmd rule: offset_loop.induct)
  case (1 fp k d t cmd)
  show ?case
  proof (cases "k < d")
    case True
    then have "[k..d - 1] = k # [k + 1..d - 1]"
      by (simp add: upto_rec1)
    with True 1 show ?thesis
      by (subst offset_loop.simps) simp
  next
    case False
    then show ?thesis
      by (subst offset_loop.simps) simp
  qed
qed

lemma stroke_ctx:
  "\<exists>pre post. \<forall>text.
     build_cmd_stroke im text fnt psize fill ocol
       thick outp = pre @ escape_for_label text @ post"
  unfolding build_cmd_stroke_def
  by (metis append.assoc)

lemma outline_base_ctx:
  "\<exists>pre post. \<forall>esc. outline_base im fnt psize ocol esc = pre @ esc @ post"
  unfolding outline_base_def by (metis append.assoc)

lemma fill_layer_ctx:
  "\<exists>pre post. \<forall>esc. fill_layer fnt psize fill esc outp = pre @ esc @ post"
  unfolding fill_layer_def by (metis append.assoc)

lemma offset_ctx:
  "\<exists>pre mid post. \<forall>text.
     build_cmd_offset fp im text fnt psize fill ocol
       thick dirs outp
     = pre @ escape_for_label text @ mid @ escape_for_label text @ post"
proof -
  obtain p1 q1 where a:
    "\<And>esc. outline_base im fnt psize ocol esc = p1 @ esc @ q1"
    using outline_base_ctx by blast
  obtain p2 q2 where b:
    "\<And>esc. fill_layer fnt psize fill esc outp = p2 @ esc @ q2"
    using fill_layer_ctx by blast
  let ?ring = "concat (map (\<lambda>j. shifted_copy (offset_dx fp thick j dirs)
      (offset_dy fp thick j dirs)) [0..dirs - 1])"
  have "\<forall>text. build_cmd_offset fp im text fnt psize fill ocol
           thick dirs outp
         = p1 @ escape_for_label text @ (q1 @ ?ring @ p2) @ escape_for_label text @ q2"
    by (simp add: build_cmd_offset_def Let_def offset_loop_closed a b)
  then show ?thesis by blast
qed

section \<open>Evaluation of the printing functions\<close>

lemma digit_chars:
  "(char_of (48::nat) :: char) = CHR ''0''" "(char_of (49::nat) :: char) = CHR ''1''"
  "(char_of (50::nat) :: char) = CHR ''2''" "(char_of (51::nat) :: char) = CHR ''3''"
  "(char_of (52::nat) :: char) = CHR ''4''" "(char_of (53::nat) :: char) = CHR ''5''"
  "(char_of (54::nat) :: char) = CHR ''6''" "(char_of (55::nat) :: char) = CHR ''7''"
  "(char_of (56::nat) :: char) = CHR ''8''" "(char_of (57::nat) :: char) = CHR ''9''"
  by code_simp+

lemmas eval_simps = to_string_def show_nat.simps digit_chars trim_def ltrim_def rtrim_def isspace_def


section \<open>Properties of trimming\<close>

lemma rtrim_decomp: "t = rtrim t @ rev (takeWhile isspace (rev t))"
proof -
  have "rtrim t @ rev (takeWhile isspace (rev t))
        = rev (takeWhile isspace (rev t) @ dropWhile isspace (rev t))"
    by (simp only: rtrim_def rev_append)
  also have "\<dots> = t"
    by (simp only: takeWhile_dropWhile_id rev_rev_ident)
  finally show ?thesis by simp
qed

lemma trim_decomp:
  "\<exists>l r. s = l @ trim s @ r \<and> (\<forall>c\<in>set l. isspace c) \<and> (\<forall>c\<in>set r. isspace c)"
proof -
  let ?l = "takeWhile isspace s"
  let ?r = "rev (takeWhile isspace (rev (ltrim s)))"
  have "s = ?l @ ltrim s" by (simp add: ltrim_def)
  also have "ltrim s = trim s @ ?r" unfolding trim_def by (rule rtrim_decomp)
  finally have "s = ?l @ trim s @ ?r" .
  moreover have "\<forall>c\<in>set ?l. isspace c" by (auto dest: set_takeWhileD)
  moreover have "\<forall>c\<in>set ?r. isspace c" by (auto dest: set_takeWhileD)
  ultimately show ?thesis by blast
qed

lemma rtrim_last: "rtrim t \<noteq> [] \<Longrightarrow> \<not> isspace (last (rtrim t))"
  unfolding rtrim_def by (simp add: last_rev hd_dropWhile)

lemma rtrim_hd: "rtrim t \<noteq> [] \<Longrightarrow> hd (rtrim t) = hd t"
  by (metis hd_append2 rtrim_decomp)

lemma ltrim_hd: "ltrim s \<noteq> [] \<Longrightarrow> \<not> isspace (hd (ltrim s))"
  unfolding ltrim_def by (simp add: hd_dropWhile)

lemma trim_ends:
  assumes "trim s \<noteq> []"
  shows "\<not> isspace (hd (trim s))" and "\<not> isspace (last (trim s))"
proof -
  from assms have "ltrim s \<noteq> []" by (auto simp: trim_def rtrim_def)
  with assms show "\<not> isspace (hd (trim s))"
    by (simp add: trim_def rtrim_hd ltrim_hd)
  from assms show "\<not> isspace (last (trim s))"
    by (simp add: trim_def rtrim_last)
qed

lemma trim_eq_Nil: "trim s = [] \<longleftrightarrow> (\<forall>c\<in>set s. isspace c)"
proof
  assume "trim s = []"
  with trim_decomp [of s] show "\<forall>c\<in>set s. isspace c"
    by (metis Un_iff append_Nil set_append)
next
  assume a: "\<forall>c\<in>set s. isspace c"
  show "trim s = []"
  proof (rule ccontr)
    assume n: "trim s \<noteq> []"
    then have "\<not> isspace (hd (trim s))" by (rule trim_ends)
    moreover from trim_decomp [of s] n have "hd (trim s) \<in> set s"
      by (metis Un_iff hd_in_set set_append)
    ultimately show False using a by blast
  qed
qed

section \<open>The batch drivers and their jobs\<close>


lemma txt2png_all_succeed:
  "\<not> dry_run opt \<Longrightarrow>
   \<forall>(n, t)\<in>set (txt2png_jobs (lineno st) lines). sys (line_cmd fp opt fnt n t) = 0 \<Longrightarrow>
   txt2png_loop fp sys opt fnt lines st =
     (let cmds = map (\<lambda>(n, t). line_cmd fp opt fnt n t) (txt2png_jobs (lineno st) lines);
          m = made st + int (length cmds)
      in (0, st\<lparr>cerr := cerr st @ [''Wrote '' @ to_string m @ '' PNG files.''],
                lineno := lineno st + int (length lines),
                made := m,
                commands := commands st @ cmds\<rparr>))"
proof (induction lines arbitrary: st)
  case Nil
  then show ?case by simp
next
  case (Cons line rest)
  show ?case
  proof (cases "trim line = []")
    case True
    with Cons.prems Cons.IH [of "st\<lparr>lineno := lineno st + 1\<rparr>"] show ?thesis
      by (simp add: Let_def add.assoc)
  next
    case False
    let ?st = "st\<lparr>commands := commands st @ [line_cmd fp opt fnt (lineno st) (trim line)],
                   made := made st + 1, lineno := lineno st + 1\<rparr>"
    from False Cons.prems Cons.IH [of ?st] show ?thesis
      by (simp add: Let_def add.assoc)
  qed
qed

lemma txt2png_first_failure:
  assumes "\<not> dry_run opt"
    and "\<forall>(n, t)\<in>set (txt2png_jobs (lineno st) pre). sys (line_cmd fp opt fnt n t) = 0"
    and "trim line \<noteq> []"
    and "sys (line_cmd fp opt fnt (lineno st + int (length pre)) (trim line)) \<noteq> 0"
  shows "txt2png_loop fp sys opt fnt (pre @ line # post) st =
     (let cmds = map (\<lambda>(n, t). line_cmd fp opt fnt n t) (txt2png_jobs (lineno st) pre);
          cmd = line_cmd fp opt fnt (lineno st + int (length pre)) (trim line)
      in (7, st\<lparr>cerr := cerr st @ [''Command failed (rc='' @ to_string (sys cmd) @ ''): '' @ cmd],
                lineno := lineno st + int (length pre),
                made := made st + int (length cmds),
                commands := commands st @ cmds @ [cmd]\<rparr>))"
  using assms
proof (induction pre arbitrary: st)
  case Nil
  then show ?case by (simp add: Let_def)
next
  case (Cons l pre)
  show ?case
  proof (cases "trim l = []")
    case True
    with Cons.prems Cons.IH [of "st\<lparr>lineno := lineno st + 1\<rparr>"] show ?thesis
      by (simp add: Let_def add.assoc)
  next
    case False
    let ?st = "st\<lparr>commands := commands st @ [line_cmd fp opt fnt (lineno st) (trim l)],
                   made := made st + 1, lineno := lineno st + 1\<rparr>"
    from False Cons.prems Cons.IH [of ?st] show ?thesis
      by (simp add: Let_def add.assoc)
  qed
qed

lemma text2png_loop_jobs:
  "text2png_loop be opts lines st =
     (let jobs = text2png_jobs (line_number st) lines
      in (0, st\<lparr>cout := cout st @ map (\<lambda>(n, l). ''Created: '' @ output_prefix opts @ to_string n @ ''.png'') jobs,
                cerr := cerr st @ concat (map (\<lambda>(n, l). fst (render_text_to_png be l
                          (output_prefix opts @ to_string n @ ''.png'') opts)) jobs),
                line_number := line_number st + int (length jobs),
                surfaces := surfaces st @ map (\<lambda>(n, l). snd (render_text_to_png be l
                          (output_prefix opts @ to_string n @ ''.png'') opts)) jobs\<rparr>))"
proof (induction lines arbitrary: st)
  case Nil
  then show ?case by simp
next
  case (Cons line rest)
  then show ?case by (simp add: Let_def add.assoc split: prod.splits)
qed

section \<open>Decimal printing is injective\<close>









section \<open>The numbers the two drivers give to the lines\<close>



lemma line_cmd_out_path:
  \<open>\<exists>pre. line_cmd fp opt fnt n t = pre @ '' PNG32:"'' @ prefix opt @ to_string n @ ''.png'' @ ''"''\<close>
  unfolding line_cmd_def Let_def build_cmd_stroke_def build_cmd_offset_def fill_layer_def
  by (metis append.assoc)



lemma text2png_jobs_lines: "map snd (text2png_jobs n lines) = filter (\<lambda>l. l \<noteq> []) lines"
  by (induction lines arbitrary: n) simp_all

section \<open>The command of the offset method\<close>

lemma c_round_0: "c_round 0 = 0"
  by (simp add: c_round_def)

lemma build_cmd_offset_closed:
  "build_cmd_offset fp im txt fnt psize fill ocol thick dirs outp
   = outline_base im fnt psize ocol (escape_for_label txt)
     @ concat (map (\<lambda>k. shifted_copy (offset_dx fp thick k dirs) (offset_dy fp thick k dirs))
                   [0..dirs - 1])
     @ fill_layer fnt psize fill (escape_for_label txt) outp"
  by (simp add: build_cmd_offset_def Let_def offset_loop_closed)

lemma offset_cmd_no_directions:
  \<open>build_cmd_offset fp ''magick'' ''Hi'' [] 64 ''#FFFFFF'' ''#000000'' 4 0 ''1.png''
   = ''magick -background none -pointsize 64 -fill "#000000" label:"Hi" -write mpr:outline +delete  mpr:outline ( -background none -pointsize 64 -fill "#FFFFFF" label:"Hi" ) -gravity center -compose over -composite PNG32:"1.png"''\<close>
  by (simp add: build_cmd_offset_closed outline_base_def fill_layer_def escape_for_label_def
      backslash_def dquote_def eval_simps)

lemma offset_cmd_negative_thickness:
  \<open>build_cmd_offset exact_arith ''magick'' ''Hi'' [] 64 ''#FFFFFF'' ''#000000'' (- 3) 1 ''1.png''
   = ''magick -background none -pointsize 64 -fill "#000000" label:"Hi" -write mpr:outline +delete  mpr:outline mpr:outline -background none -gravity center -geometry +-3+0 -compose over -composite ( -background none -pointsize 64 -fill "#FFFFFF" label:"Hi" ) -gravity center -compose over -composite PNG32:"1.png"''\<close>
  by (simp add: build_cmd_offset_closed outline_base_def fill_layer_def shifted_copy_def
      offset_dx_def offset_dy_def angle_def c_round_def exact_arith_def escape_for_label_def
      backslash_def dquote_def eval_simps)

section \<open>The size of the canvas\<close>

text \<open>What the sizing of text2png guarantees for a point size of at least 1.\<close>

lemma canvas_size_bounds:
  assumes "1 \<le> font_size opts"
  shows "\<bar>x_bearing e\<bar> + width e + 2 * real_of_int (padding opts)
           + 2 * real_of_int (outline_width opts) \<le> real_of_int (canvas_width e opts)"
    and "1.5 * real_of_int (font_size opts) \<le> real_of_int (canvas_width e opts)"
    and "\<bar>y_bearing e\<bar> + height e + 2 * real_of_int (padding opts)
           + 2 * real_of_int (outline_width opts) \<le> real_of_int (canvas_height e opts)"
    and "real_of_int (font_size opts) \<le> real_of_int (canvas_height e opts)"
proof -
  have w: "full_width e opts \<le> real_of_int (canvas_width e opts)"
    and h: "full_height e opts \<le> real_of_int (canvas_height e opts)"
    by (simp_all add: canvas_width_def canvas_height_def)
  have "\<bar>x_bearing e\<bar> + width e + 2 * real_of_int (padding opts)
           + 2 * real_of_int (outline_width opts) \<le> full_width e opts"
    by (simp add: full_width_def Let_def)
  with w show "\<bar>x_bearing e\<bar> + width e + 2 * real_of_int (padding opts)
           + 2 * real_of_int (outline_width opts) \<le> real_of_int (canvas_width e opts)"
    by linarith
  have "1.5 * real_of_int (font_size opts) \<le> full_width e opts"
    by (simp add: full_width_def Let_def)
  with w show "1.5 * real_of_int (font_size opts) \<le> real_of_int (canvas_width e opts)"
    by linarith
  from assms have p: "1 \<le> real_of_int (font_size opts)" by simp
  then have "\<bar>y_bearing e\<bar> + height e + 2 * real_of_int (padding opts)
           + 2 * real_of_int (outline_width opts) \<le> full_height e opts"
    by (simp add: full_height_def Let_def)
  with h show "\<bar>y_bearing e\<bar> + height e + 2 * real_of_int (padding opts)
           + 2 * real_of_int (outline_width opts) \<le> real_of_int (canvas_height e opts)"
    by linarith
  from p have "real_of_int (font_size opts) \<le> full_height e opts"
    by (simp add: full_height_def Let_def)
  with h show "real_of_int (font_size opts) \<le> real_of_int (canvas_height e opts)"
    by linarith
qed

section \<open>Reading hexadecimal pairs\<close>

lemma hexval_bound: "hexval c = Some v \<Longrightarrow> v < 16"
  by (auto simp: hexval_def Let_def split: if_splits)

lemma hexval_not_special:
  assumes "hexval c = Some v"
  shows "\<not> isspace c" and "c \<noteq> CHR ''+''" and "c \<noteq> CHR ''-''"
    and "c \<noteq> CHR ''x''" and "c \<noteq> CHR ''X''"
  using assms by (auto simp: isspace_def hexval_def)

lemma scan_x2_pair:
  assumes "hexval a = Some va" and "hexval b = Some vb"
  shows "scan_x2 lenient (a # b # rest) = Some (16 * va + vb, rest)"
  using assms hexval_not_special [OF assms(1)] hexval_not_special(4,5) [OF assms(2)]
  by (simp add: scan_x2_def)

lemma sscanf_x2_numeral:
  "sscanf_x2 lenient (numeral k) s =
     (case scan_x2 lenient s of None \<Rightarrow> [] | Some (v, r) \<Rightarrow> v # sscanf_x2 lenient (pred_numeral k) r)"
  by (simp add: numeral_eq_Suc)

lemma sscanf_x2_six:
  assumes "hexval a = Some va" "hexval b = Some vb" "hexval c = Some vc"
    "hexval d = Some vd" "hexval e = Some ve" "hexval f = Some vf"
  shows "sscanf_x2 lenient 3 [a, b, c, d, e, f] = [16 * va + vb, 16 * vc + vd, 16 * ve + vf]"
  using assms by (simp add: sscanf_x2_numeral scan_x2_pair)

lemma sscanf_x2_eight:
  assumes "hexval a = Some va" "hexval b = Some vb" "hexval c = Some vc"
    "hexval d = Some vd" "hexval e = Some ve" "hexval f = Some vf"
    "hexval g = Some vg" "hexval h = Some vh"
  shows "sscanf_x2 lenient 4 [a, b, c, d, e, f, g, h]
         = [16 * va + vb, 16 * vc + vd, 16 * ve + vf, 16 * vg + vh]"
  using assms by (simp add: sscanf_x2_numeral scan_x2_pair)

lemma byte_bound: "hexval a = Some va \<Longrightarrow> hexval b = Some vb \<Longrightarrow> 16 * va + vb \<le> 255"
  using hexval_bound [of a va] hexval_bound [of b vb] by simp

text \<open>
  Two cases the handlers treat without a warning: a background colour of a wrong length
  changes nothing and reports nothing, and six characters that are not all hexadecimal
  digits are accepted as far as \<^verbatim>\<open>sscanf\<close> can read them.
\<close>

lemma color_options_without_warning:
  "bg_color_option lenient ''#FFF'' (default_TextOptions, \<lparr>cout = [], cerr = []\<rparr>)
   = Some (default_TextOptions, \<lparr>cout = [], cerr = []\<rparr>)"
  "text_color_option lenient ''#12345G'' (default_TextOptions, \<lparr>cout = [], cerr = []\<rparr>)
   = (default_TextOptions\<lparr>text_r := 18 / 255, text_g := 52 / 255, text_b := 5 / 255\<rparr>,
      \<lparr>cout = [], cerr = []\<rparr>)"
  by (simp_all add: text_color_option_def bg_color_option_def strip_hash_def
      hexval_def scan_x2_def isspace_def default_TextOptions_def sscanf_x2_numeral Let_def)

section \<open>The font lists\<close>

lemma set_set_insert: "set (set_insert x xs) = insert x (set xs)"
  by (induction xs) auto

lemma sorted_set_insert: "sorted_wrt (<) xs \<Longrightarrow> sorted_wrt (<) (set_insert x xs)"
  by (induction xs) (auto simp: set_set_insert)

lemma unique_fonts_loop_props:
  "sorted_wrt (<) acc \<Longrightarrow>
   sorted_wrt (<) (unique_fonts_loop acc fonts)
   \<and> set (unique_fonts_loop acc fonts) = set acc \<union> {n. Some n \<in> set fonts}"
proof (induction fonts arbitrary: acc)
  case Nil
  then show ?case by simp
next
  case (Cons family rest)
  show ?case
  proof (cases family)
    case None
    with Cons.IH [OF Cons.prems] show ?thesis by auto
  next
    case (Some name)
    from Cons.prems have "sorted_wrt (<) (set_insert name acc)" by (rule sorted_set_insert)
    from Cons.IH [OF this] Some show ?thesis by (auto simp: set_set_insert)
  qed
qed

lemma unique_fonts_only_set:
  assumes "{n. Some n \<in> set fonts} = {n. Some n \<in> set fonts2}"
  shows "unique_fonts_loop [] fonts = unique_fonts_loop [] fonts2"
proof -
  have a: "sorted_wrt (<) (unique_fonts_loop [] fonts)"
    and b: "sorted_wrt (<) (unique_fonts_loop [] fonts2)"
    by (simp_all add: unique_fonts_loop_props)
  have c: "set (unique_fonts_loop [] fonts) = set (unique_fonts_loop [] fonts2)"
    using assms by (simp add: unique_fonts_loop_props)
  from b a c show ?thesis by (rule strict_sorted_equal)
qed

lemma print_unique_loop_enumerate:
  "print_unique_loop i names
   = map (\<lambda>(k, n). to_string (i + int k) @ '': '' @ n) (enumerate 0 names)"
proof (induction names arbitrary: i)
  case Nil
  then show ?case by simp
next
  case (Cons name rest)
  have "map (\<lambda>(k, n). to_string (i + int k) @ '': '' @ n) (enumerate (Suc 0) rest)
        = map (\<lambda>(k, n). to_string (i + 1 + int k) @ '': '' @ n) (enumerate 0 rest)"
    by (simp add: enumerate_eq_zip map_Suc_upt [symmetric] zip_map1 case_prod_unfold add.assoc
        del: upt_Suc)
  with Cons.IH [of "i + 1"] show ?case by simp
qed

lemma print_fonts_loop_enumerate:
  "print_fonts_loop i fonts
   = map (\<lambda>(k, n). show_nat (i + k + 1) @ '': '' @ n) (enumerate 0 fonts)"
proof (induction fonts arbitrary: i)
  case Nil
  then show ?case by simp
next
  case (Cons f rest)
  have "map (\<lambda>(k, n). show_nat (i + k + 1) @ '': '' @ n) (enumerate (Suc 0) rest)
        = map (\<lambda>(k, n). show_nat (i + 1 + k + 1) @ '': '' @ n) (enumerate 0 rest)"
    by (simp add: enumerate_eq_zip map_Suc_upt [symmetric] zip_map1 case_prod_unfold
        del: upt_Suc)
  with Cons.IH [of "i + 1"] show ?case by simp
qed

lemma im_fonts_loop_closed:
  "im_fonts_loop acc lines = acc @ filter (\<lambda>n. n \<noteq> []) (List.map_filter im_font_name lines)"
  by (induction lines arbitrary: acc) (auto simp: List.map_filter_simps split: option.splits)

lemma fc_fonts_loop_closed:
  "fc_fonts_loop acc lines
   = acc @ filter (\<lambda>n. n \<noteq> []) (map (\<lambda>l. trim (takeWhile (\<lambda>c. c \<noteq> CHR '':'') l)) lines)"
  by (induction lines arbitrary: acc) (auto simp: Let_def)

lemma dedup_loop_props:
  "distinct acc \<Longrightarrow>
   distinct (dedup_loop acc fs) \<and> set (dedup_loop acc fs) = set acc \<union> set fs"
  by (induction fs arbitrary: acc) auto

lemma remdups_append_tail:
  "set ys = set zs \<Longrightarrow> remdups ys = remdups zs \<Longrightarrow> remdups (xs @ ys) = remdups (xs @ zs)"
  by (induction xs) auto

lemma dedup_loop_first_occurrences:
  "distinct acc \<Longrightarrow> dedup_loop acc fs = rev (remdups (rev (acc @ fs)))"
proof (induction fs arbitrary: acc)
  case Nil
  then show ?case by (simp add: distinct_remdups_id)
next
  case (Cons f fs)
  show ?case
  proof (cases "f \<in> set acc")
    case True
    from True have s: "set (f # rev acc) = set (rev acc)" by auto
    from True have "remdups (f # rev acc) = remdups (rev acc)" by simp
    with s have "remdups (rev fs @ f # rev acc) = remdups (rev fs @ rev acc)"
      by (intro remdups_append_tail)
    with True Cons.IH [OF Cons.prems] show ?thesis by simp
  next
    case False
    with Cons.prems have "distinct (acc @ [f])" by simp
    from Cons.IH [OF this] False show ?thesis by simp
  qed
qed

lemma getlines_Nil: "getlines [] = []"
  by (simp add: getlines_def)

lemma collect_fonts_cases:
  "collect_fonts run im =
     (let names = filter (\<lambda>n. n \<noteq> [])
                    (List.map_filter im_font_name (getlines (run (im @ '' -list font''))))
      in if names \<noteq> [] then names
         else dedup_loop []
                (filter (\<lambda>n. n \<noteq> [])
                   (map (\<lambda>l. trim (takeWhile (\<lambda>c. c \<noteq> CHR '':'') l))
                      (getlines (run ''fc-list : family'')))))"
  by (auto simp: collect_fonts_def Let_def im_fonts_loop_closed fc_fonts_loop_closed getlines_Nil
      List.map_filter_simps)

lemma family_order: "''DejaVu Sans'' < ''Noto Sans''" "\<not> ''Noto Sans'' < ''DejaVu Sans''"
  by code_simp+

text \<open>
  What the font lists guarantee.  text2png prints the family names in strictly ascending
  order (bytewise lexicographic), so no name twice, numbered from 1, and the output depends
  only on the set of family names.  txt2png returns the names of the ImageMagick listing as
  they are listed whenever that listing has a name at all, and otherwise the families of
  \<^verbatim>\<open>fc-list\<close> with the first occurrence of each kept; it prints the list numbered from 1.
\<close>

lemma font_lists_guarantee:
  "sorted_wrt (<) (unique_fonts_loop [] fonts)
   \<and> set (unique_fonts_loop [] fonts) = {n. Some n \<in> set fonts}
   \<and> ({n. Some n \<in> set fonts} = {n. Some n \<in> set fonts2} \<longrightarrow>
        list_fonts True (Some fonts) = list_fonts True (Some fonts2))
   \<and> list_fonts True (Some fonts)
       = \<lparr>cout = map (\<lambda>(k, n). to_string (1 + int k) @ '': '' @ n)
                   (enumerate 0 (unique_fonts_loop [] fonts)),
          cerr = []\<rparr>
   \<and> collect_fonts run im
       = (let names = filter (\<lambda>n. n \<noteq> [])
                        (List.map_filter im_font_name (getlines (run (im @ '' -list font''))))
          in if names \<noteq> [] then names
             else dedup_loop []
                    (filter (\<lambda>n. n \<noteq> [])
                       (map (\<lambda>l. trim (takeWhile (\<lambda>c. c \<noteq> CHR '':'') l))
                          (getlines (run ''fc-list : family'')))))
   \<and> distinct (dedup_loop [] fs)
   \<and> dedup_loop [] fs = rev (remdups (rev fs))
   \<and> (names \<noteq> [] \<longrightarrow>
        main_list_fonts names
        = (0, \<lparr>cout = map (\<lambda>(k, n). show_nat (k + 1) @ '': '' @ n) (enumerate 0 names),
                cerr = []\<rparr>))"
proof (intro conjI impI)
  show "sorted_wrt (<) (unique_fonts_loop [] fonts)"
    by (simp add: unique_fonts_loop_props)
  show "set (unique_fonts_loop [] fonts) = {n. Some n \<in> set fonts}"
    by (simp add: unique_fonts_loop_props)
  show "list_fonts True (Some fonts) = list_fonts True (Some fonts2)"
    if "{n. Some n \<in> set fonts} = {n. Some n \<in> set fonts2}"
    using unique_fonts_only_set [OF that] by (simp add: list_fonts_def)
  show "list_fonts True (Some fonts)
       = \<lparr>cout = map (\<lambda>(k, n). to_string (1 + int k) @ '': '' @ n)
                   (enumerate 0 (unique_fonts_loop [] fonts)),
          cerr = []\<rparr>"
    by (simp add: list_fonts_def print_unique_loop_enumerate)
  show "collect_fonts run im
       = (let names = filter (\<lambda>n. n \<noteq> [])
                        (List.map_filter im_font_name (getlines (run (im @ '' -list font''))))
          in if names \<noteq> [] then names
             else dedup_loop []
                    (filter (\<lambda>n. n \<noteq> [])
                       (map (\<lambda>l. trim (takeWhile (\<lambda>c. c \<noteq> CHR '':'') l))
                          (getlines (run ''fc-list : family'')))))"
    by (rule collect_fonts_cases)
  show "distinct (dedup_loop [] fs)"
    by (simp add: dedup_loop_props)
  show "dedup_loop [] fs = rev (remdups (rev fs))"
    by (simp add: dedup_loop_first_occurrences)
  show "main_list_fonts names
        = (0, \<lparr>cout = map (\<lambda>(k, n). show_nat (k + 1) @ '': '' @ n) (enumerate 0 names),
                cerr = []\<rparr>)" if "names \<noteq> []"
    using that by (simp add: main_list_fonts_def print_fonts_loop_enumerate)
qed

lemma font_lists_example:
  "list_fonts True (Some [Some ''Noto Sans'', Some ''DejaVu Sans'', None, Some ''Noto Sans''])
   = \<lparr>cout = [''1: DejaVu Sans'', ''2: Noto Sans''], cerr = []\<rparr>
   \<and> list_fonts True (Some [Some ''DejaVu Sans'', Some ''Noto Sans''])
   = \<lparr>cout = [''1: DejaVu Sans'', ''2: Noto Sans''], cerr = []\<rparr>
   \<and> collect_fonts fontconfig_listing ''magick'' = [''DejaVu Sans'', ''Noto Sans'']
   \<and> main_list_fonts [''DejaVu Sans'', ''Noto Sans'']
   = (0, \<lparr>cout = [''1: DejaVu Sans'', ''2: Noto Sans''], cerr = []\<rparr>)"
proof -
  have h: "{n. Some n \<in> set [Some ''Noto Sans'', Some ''DejaVu Sans'', None, Some ''Noto Sans'']}
           = {n. Some n \<in> set [Some ''DejaVu Sans'', Some ''Noto Sans'']}"
    by auto
  have n: "[''DejaVu Sans'', ''Noto Sans''] \<noteq> []" by simp
  show ?thesis
    using font_lists_guarantee [where fonts = "[Some ''Noto Sans'', Some ''DejaVu Sans'', None, Some ''Noto Sans'']"
        and ?fonts2.0 = "[Some ''DejaVu Sans'', Some ''Noto Sans'']"
        and run = fontconfig_listing and im = "''magick''"
        and names = "[''DejaVu Sans'', ''Noto Sans'']" and fs = "[]"] h n
    by (simp add: list_fonts_def family_order fontconfig_listing_def getlines_def
        List.map_filter_simps im_font_name_def enumerate_eq_zip eval_simps upt_rec)
qed

section \<open>The claims\<close>

text \<open>
  Claim C1 at a concrete input of the code: the default options (point size 48, padding 20,
  outline width 2) and the measurement \<open>period_extents\<close>.  The height before rounding is
  56, which is not below the point size, so the test of line 176 leaves it alone and the
  canvas is 56 pixels high: less than 1.2 times the point size, 57.6, the value line 177
  assigns as the minimum.  (The other three bounds of the claim hold, together with a
  height of at least the point size: lemma \<open>canvas_size_bounds\<close>.)
\<close>

theorem canvas_height_below_floor:
  "1 \<le> font_size default_TextOptions \<and> 0 \<le> padding default_TextOptions
   \<and> 0 \<le> outline_width default_TextOptions
   \<and> \<bar>y_bearing period_extents\<bar> + height period_extents
     + 2 * real_of_int (padding default_TextOptions)
     + 2 * real_of_int (outline_width default_TextOptions) = 56
   \<and> canvas_height period_extents default_TextOptions = 56
   \<and> real_of_int (canvas_height period_extents default_TextOptions)
       < 1.2 * real_of_int (font_size default_TextOptions)"
  by (simp add: canvas_height_def full_height_def period_extents_def default_TextOptions_def)



text \<open>
  Claim C3, as amended.  The command of the offset method always renders the text in the
  outline colour, stores it and takes it as the canvas, and composites the fill-colour text
  last.  With \<open>directions \<le> 0\<close> nothing comes between the two; with a thickness of 0 the
  copies of the outline layer are all composited at the offset \<open>+0+0\<close> (a \<^verbatim>\<open>double\<close> product
  with 0 is 0).  The outline-colour layer is part of the command in every case.
\<close>

theorem offset_halo_degenerate_cases:
  \<open>(dirs \<le> 0 \<longrightarrow>
      build_cmd_offset fp im str fnt psize fill ocol thick dirs outp
      = outline_base im fnt psize ocol (escape_for_label str)
        @ fill_layer fnt psize fill (escape_for_label str) outp)
   \<and> (rnd fp 0 = 0 \<longrightarrow>
        build_cmd_offset fp im str fnt psize fill ocol 0 dirs outp
        = outline_base im fnt psize ocol (escape_for_label str)
          @ concat (replicate (nat dirs) (shifted_copy 0 0))
          @ fill_layer fnt psize fill (escape_for_label str) outp)
   \<and> sublist ('' -fill "'' @ ocol @ ''"'' @ '' label:"'' @ escape_for_label str @ ''"''
               @ '' -write mpr:outline +delete '' @ '' mpr:outline'')
         (build_cmd_offset fp im str fnt psize fill ocol thick dirs outp)
   \<and> (\<exists>copies. build_cmd_offset fp im str fnt psize fill ocol thick dirs outp
          = outline_base im fnt psize ocol (escape_for_label str) @ copies
            @ fill_layer fnt psize fill (escape_for_label str) outp)\<close>
proof (intro conjI impI)
  show "build_cmd_offset fp im str fnt psize fill ocol thick dirs outp
      = outline_base im fnt psize ocol (escape_for_label str)
        @ fill_layer fnt psize fill (escape_for_label str) outp" if "dirs \<le> 0"
    using that by (simp add: build_cmd_offset_closed)
  show "build_cmd_offset fp im str fnt psize fill ocol 0 dirs outp
       = outline_base im fnt psize ocol (escape_for_label str)
         @ concat (replicate (nat dirs) (shifted_copy 0 0))
         @ fill_layer fnt psize fill (escape_for_label str) outp" if "rnd fp 0 = 0"
  proof -
    from that
    have "map (\<lambda>k. shifted_copy (offset_dx fp 0 k dirs) (offset_dy fp 0 k dirs)) [0..dirs - 1]
        = replicate (nat dirs) (shifted_copy 0 0)"
      by (simp add: offset_dx_def offset_dy_def c_round_0 map_replicate_const)
    then show ?thesis
      by (simp only: build_cmd_offset_closed)
  qed
  show \<open>sublist ('' -fill "'' @ ocol @ ''"'' @ '' label:"'' @ escape_for_label str @ ''"''
               @ '' -write mpr:outline +delete '' @ '' mpr:outline'')
         (build_cmd_offset fp im str fnt psize fill ocol thick dirs outp)\<close>
  proof -
    let ?x = \<open>'' -fill "'' @ ocol @ ''"'' @ '' label:"'' @ escape_for_label str @ ''"''
               @ '' -write mpr:outline +delete '' @ '' mpr:outline''\<close>
    let ?p = \<open>im @ '' -background none'' @ (if fnt \<noteq> [] then '' -font "'' @ fnt @ ''"'' else [])
               @ '' -pointsize '' @ to_string psize\<close>
    have "outline_base im fnt psize ocol (escape_for_label str) = ?p @ ?x"
      by (simp add: outline_base_def)
    then have "\<exists>ss. build_cmd_offset fp im str fnt psize fill ocol thick dirs outp = ?p @ ?x @ ss"
      by (simp add: build_cmd_offset_closed)
    then obtain ss where "build_cmd_offset fp im str fnt psize fill ocol thick dirs outp = ?p @ ?x @ ss"
      by blast
    then show ?thesis
      by (simp only: sublist_appendI)
  qed
  show "\<exists>copies. build_cmd_offset fp im str fnt psize fill ocol thick dirs outp
          = outline_base im fnt psize ocol (escape_for_label str) @ copies
            @ fill_layer fnt psize fill (escape_for_label str) outp"
    by (simp only: build_cmd_offset_closed) blast
qed

theorem offset_halo_degenerate_witness:
  \<open>build_cmd_offset exact_arith ''magick'' ''Hi'' [] 64 ''#FFFFFF'' ''#000000'' 0 2 ''1.png''
   = ''magick -background none -pointsize 64 -fill "#000000" label:"Hi" -write mpr:outline +delete ''
     @ '' mpr:outline''
     @ '' mpr:outline -background none -gravity center -geometry +0+0 -compose over -composite''
     @ '' mpr:outline -background none -gravity center -geometry +0+0 -compose over -composite''
     @ '' ( -background none -pointsize 64 -fill "#FFFFFF" label:"Hi" ) -gravity center -compose over -composite''
     @ '' PNG32:"1.png"''
   \<and> build_cmd_offset exact_arith ''magick'' ''Hi'' [] 64 ''#FFFFFF'' ''#000000'' 4 (- 1) ''1.png''
   = ''magick -background none -pointsize 64 -fill "#000000" label:"Hi" -write mpr:outline +delete ''
     @ '' mpr:outline''
     @ '' ( -background none -pointsize 64 -fill "#FFFFFF" label:"Hi" ) -gravity center -compose over -composite''
     @ '' PNG32:"1.png"''\<close>
  using offset_halo_degenerate_cases [where dirs = 2 and fp = exact_arith
      and im = "''magick''" and str = "''Hi''" and fnt = "[]" and psize = 64
      and fill = "''#FFFFFF''" and ocol = "''#000000''" and thick = 0 and outp = "''1.png''"]
    offset_halo_degenerate_cases [where dirs = "- 1" and fp = exact_arith
      and im = "''magick''" and str = "''Hi''" and fnt = "[]" and psize = 64
      and fill = "''#FFFFFF''" and ocol = "''#000000''" and thick = 4 and outp = "''1.png''"]
  by (simp add: outline_base_def fill_layer_def shifted_copy_def escape_for_label_def
      exact_arith_def backslash_def dquote_def eval_simps numeral_2_eq_2)

text \<open>
  Claim C3 as stated fails: with \<open>directions = 0\<close> the command still renders and uses the
  layer in the outline colour, and with the thickness \<open>- 3\<close> a copy of that layer is still
  composited, 3 pixels to the side.
\<close>

theorem offset_halo_outline_layer_remains:
  \<open>sublist '' -fill "#000000" label:"Hi" -write mpr:outline''
       (build_cmd_offset exact_arith ''magick'' ''Hi'' [] 64 ''#FFFFFF'' ''#000000'' 4 0 ''1.png'')
   \<and> sublist '' mpr:outline -background none -gravity center -geometry +-3+0 -compose over -composite''
       (build_cmd_offset exact_arith ''magick'' ''Hi'' [] 64 ''#FFFFFF'' ''#000000'' (- 3) 1 ''1.png'')\<close>
  unfolding offset_cmd_no_directions offset_cmd_negative_thickness
  by code_simp

text \<open>
  Claim C4.  The position handed to \<^verbatim>\<open>cairo_move_to\<close> is
  \<open>padding + 2 * outline_width - x_bearing\<close> and
  \<open>padding + 2 * outline_width - y_bearing + font_size\<close>, and whenever the font is found and
  loaded the next call after it is \<^verbatim>\<open>cairo_text_path\<close> with the text, which starts the text
  at that point: the point is the origin of the text on its baseline.  The reals stand for
  the \<^verbatim>\<open>double\<close> values of the code.
\<close>

theorem glyph_origin:
  "x_pos extents opts
     = real_of_int (padding opts) + 2 * real_of_int (outline_width opts) - x_bearing extents
   \<and> y_pos extents opts
     = real_of_int (padding opts) + 2 * real_of_int (outline_width opts) - y_bearing extents
       + real_of_int (font_size opts)
   \<and> (\<not> ft_init_fails be \<and> fc_font_file be (font_name opts) = Some file
        \<and> \<not> ft_new_face_fails be file \<longrightarrow>
        (\<exists>pre post. snd (render_text_to_png be txt fname opts)
           = pre @ [Move_to (x_pos (text_extents be file (font_size opts) txt) opts)
                            (y_pos (text_extents be file (font_size opts) txt) opts),
                    Text_path txt] @ post))"
proof (intro conjI impI)
  show "x_pos extents opts
     = real_of_int (padding opts) + 2 * real_of_int (outline_width opts) - x_bearing extents"
    by (simp add: x_pos_def)
  show "y_pos extents opts
     = real_of_int (padding opts) + 2 * real_of_int (outline_width opts) - y_bearing extents
       + real_of_int (font_size opts)"
    by (simp add: y_pos_def)
  assume a: "\<not> ft_init_fails be \<and> fc_font_file be (font_name opts) = Some file
        \<and> \<not> ft_new_face_fails be file"
  let ?e = "text_extents be file (font_size opts) txt"
  let ?pre = "[Image_surface_create (canvas_width ?e opts) (canvas_height ?e opts)]
                  @ (if bg_a opts > 0
                     then [Set_source_rgba (bg_r opts) (bg_g opts) (bg_b opts) (bg_a opts), Paint]
                     else [Set_source_rgba 0 0 0 0, Paint])
                  @ [Set_font_face file, Set_font_size (font_size opts), Set_font_options]"
  let ?post = "(if outline_width opts > 0
                     then [Set_source_rgb (outline_r opts) (outline_g opts) (outline_b opts),
                           Set_line_width (outline_width opts), Stroke_preserve]
                     else [])
                  @ [Set_source_rgb (text_r opts) (text_g opts) (text_b opts), Fill,
                     Surface_write_to_png fname]"
  from a have "snd (render_text_to_png be txt fname opts)
           = ?pre @ [Move_to (x_pos ?e opts) (y_pos ?e opts), Text_path txt] @ ?post"
    by (simp add: render_text_to_png_def Let_def split: option.splits)
  then show "\<exists>pre post. snd (render_text_to_png be txt fname opts)
           = pre @ [Move_to (x_pos ?e opts) (y_pos ?e opts), Text_path txt] @ post"
    by blast
qed

theorem glyph_origin_witness:
  "render_text_to_png found_font_backend ''.'' ''output1.png'' default_TextOptions
   = ([], [Image_surface_create 72 56, Set_source_rgba 0 0 0 0, Paint,
           Set_font_face ''DejaVuSans.ttf'', Set_font_size 48, Set_font_options,
           Move_to 24 78, Text_path ''.'',
           Set_source_rgb 0 0 0, Set_line_width 2, Stroke_preserve,
           Set_source_rgb 1 1 1, Fill, Surface_write_to_png ''output1.png''])"
  using glyph_origin [of period_extents default_TextOptions found_font_backend
      "''DejaVuSans.ttf''" "''.''" "''output1.png''"]
  by (simp add: render_text_to_png_def found_font_backend_def period_extents_def
      default_TextOptions_def canvas_width_def canvas_height_def full_width_def full_height_def
      x_pos_def y_pos_def)

text \<open>
  Claim C5, as amended.  For \<^verbatim>\<open>--text-color\<close> and \<^verbatim>\<open>--outline-color\<close> a value that, without
  a leading \<open>#\<close>, does not have 6 characters is not an error: the colour stays as it was, a
  warning with the value is written to standard error, and the handler returns.  A value
  of exactly 6 hexadecimal digits, and for \<^verbatim>\<open>--bg-color\<close> also one of exactly 8, is read pair
  by pair, each pair a byte (at most 255) that is divided by 255; with 6 digits the alpha
  of the background is 255/255.
\<close>

theorem color_options_warn_or_parse:
  "(length (strip_hash arg) \<noteq> 6 \<longrightarrow>
      text_color_option lenient arg (opts, out)
      = (opts, out\<lparr>cerr := cerr out @ [''Warning: Invalid text color format: ''
                                          @ strip_hash arg @ '' (expected #RRGGBB)'']\<rparr>)
      \<and> outline_color_option lenient arg (opts, out)
      = (opts, out\<lparr>cerr := cerr out @ [''Warning: Invalid outline color format: ''
                                          @ strip_hash arg @ '' (expected #RRGGBB)'']\<rparr>))
   \<and> (strip_hash arg = [a, b, c, d, e, f]
        \<and> hexval a = Some va \<and> hexval b = Some vb \<and> hexval c = Some vc
        \<and> hexval d = Some vd \<and> hexval e = Some ve \<and> hexval f = Some vf \<longrightarrow>
        fst (text_color_option lenient arg (opts, out))
        = opts\<lparr>text_r := real (16 * va + vb) / 255, text_g := real (16 * vc + vd) / 255,
               text_b := real (16 * ve + vf) / 255\<rparr>
        \<and> fst (outline_color_option lenient arg (opts, out))
        = opts\<lparr>outline_r := real (16 * va + vb) / 255, outline_g := real (16 * vc + vd) / 255,
               outline_b := real (16 * ve + vf) / 255\<rparr>
        \<and> map_option fst (bg_color_option lenient arg (opts, out))
        = Some (opts\<lparr>bg_r := real (16 * va + vb) / 255, bg_g := real (16 * vc + vd) / 255,
                     bg_b := real (16 * ve + vf) / 255, bg_a := 1\<rparr>)
        \<and> 16 * va + vb \<le> 255 \<and> 16 * vc + vd \<le> 255 \<and> 16 * ve + vf \<le> 255)
   \<and> (strip_hash arg = [a, b, c, d, e, f, g, h]
        \<and> hexval a = Some va \<and> hexval b = Some vb \<and> hexval c = Some vc
        \<and> hexval d = Some vd \<and> hexval e = Some ve \<and> hexval f = Some vf
        \<and> hexval g = Some vg \<and> hexval h = Some vh \<longrightarrow>
        map_option fst (bg_color_option lenient arg (opts, out))
        = Some (opts\<lparr>bg_r := real (16 * va + vb) / 255, bg_g := real (16 * vc + vd) / 255,
                     bg_b := real (16 * ve + vf) / 255, bg_a := real (16 * vg + vh) / 255\<rparr>)
        \<and> 16 * vg + vh \<le> 255)"
proof (intro conjI impI)
  assume "length (strip_hash arg) \<noteq> 6"
  then show "text_color_option lenient arg (opts, out)
      = (opts, out\<lparr>cerr := cerr out @ [''Warning: Invalid text color format: ''
                                          @ strip_hash arg @ '' (expected #RRGGBB)'']\<rparr>)"
    and "outline_color_option lenient arg (opts, out)
      = (opts, out\<lparr>cerr := cerr out @ [''Warning: Invalid outline color format: ''
                                          @ strip_hash arg @ '' (expected #RRGGBB)'']\<rparr>)"
    by (simp_all add: text_color_option_def outline_color_option_def Let_def)
next
  assume six: "strip_hash arg = [a, b, c, d, e, f]
        \<and> hexval a = Some va \<and> hexval b = Some vb \<and> hexval c = Some vc
        \<and> hexval d = Some vd \<and> hexval e = Some ve \<and> hexval f = Some vf"
  then have s: "sscanf_x2 lenient 3 (strip_hash arg)
      = [16 * va + vb, 16 * vc + vd, 16 * ve + vf]"
    by (simp add: sscanf_x2_six)
  from six have l: "length (strip_hash arg) = 6" by simp
  from s l show "fst (text_color_option lenient arg (opts, out))
        = opts\<lparr>text_r := real (16 * va + vb) / 255, text_g := real (16 * vc + vd) / 255,
               text_b := real (16 * ve + vf) / 255\<rparr>"
    by (simp add: text_color_option_def Let_def)
  from s l show "fst (outline_color_option lenient arg (opts, out))
        = opts\<lparr>outline_r := real (16 * va + vb) / 255, outline_g := real (16 * vc + vd) / 255,
               outline_b := real (16 * ve + vf) / 255\<rparr>"
    by (simp add: outline_color_option_def Let_def)
  from s l show "map_option fst (bg_color_option lenient arg (opts, out))
        = Some (opts\<lparr>bg_r := real (16 * va + vb) / 255, bg_g := real (16 * vc + vd) / 255,
                     bg_b := real (16 * ve + vf) / 255, bg_a := 1\<rparr>)"
    by (simp add: bg_color_option_def Let_def)
  from six show "16 * va + vb \<le> 255" and "16 * vc + vd \<le> 255" and "16 * ve + vf \<le> 255"
    using byte_bound by blast+
next
  assume eight: "strip_hash arg = [a, b, c, d, e, f, g, h]
        \<and> hexval a = Some va \<and> hexval b = Some vb \<and> hexval c = Some vc
        \<and> hexval d = Some vd \<and> hexval e = Some ve \<and> hexval f = Some vf
        \<and> hexval g = Some vg \<and> hexval h = Some vh"
  then have s: "sscanf_x2 lenient 4 (strip_hash arg)
      = [16 * va + vb, 16 * vc + vd, 16 * ve + vf, 16 * vg + vh]"
    by (simp add: sscanf_x2_eight)
  from eight have l: "length (strip_hash arg) = 8" by simp
  from s l show "map_option fst (bg_color_option lenient arg (opts, out))
        = Some (opts\<lparr>bg_r := real (16 * va + vb) / 255, bg_g := real (16 * vc + vd) / 255,
                     bg_b := real (16 * ve + vf) / 255, bg_a := real (16 * vg + vh) / 255\<rparr>)"
    by (simp add: bg_color_option_def Let_def)
  from eight show "16 * vg + vh \<le> 255"
    using byte_bound by blast
qed

theorem color_options_witness:
  "text_color_option True ''#ff8000'' (default_TextOptions, \<lparr>cout = [], cerr = []\<rparr>)
   = (default_TextOptions\<lparr>text_r := 1, text_g := 128 / 255, text_b := 0\<rparr>,
      \<lparr>cout = [], cerr = []\<rparr>)
   \<and> bg_color_option True ''#FF000080'' (default_TextOptions, \<lparr>cout = [], cerr = []\<rparr>)
   = Some (default_TextOptions\<lparr>bg_r := 1, bg_g := 0, bg_b := 0, bg_a := 128 / 255\<rparr>,
           \<lparr>cout = [], cerr = []\<rparr>)
   \<and> outline_color_option True ''1234567'' (default_TextOptions, \<lparr>cout = [], cerr = []\<rparr>)
   = (default_TextOptions,
      \<lparr>cout = [], cerr = [''Warning: Invalid outline color format: 1234567 (expected #RRGGBB)'']\<rparr>)"
  using color_options_warn_or_parse [where arg = "''#ff8000''" and opts = default_TextOptions
      and out = "\<lparr>cout = [], cerr = []\<rparr>" and lenient = True
      and a = "CHR ''f''" and b = "CHR ''f''" and c = "CHR ''8''" and d = "CHR ''0''"
      and e = "CHR ''0''" and f = "CHR ''0''"
      and va = 15 and vb = 15 and vc = 8 and vd = 0 and ve = 0 and vf = 0]
    color_options_warn_or_parse [where arg = "''#FF000080''" and opts = default_TextOptions
      and out = "\<lparr>cout = [], cerr = []\<rparr>" and lenient = True
      and a = "CHR ''F''" and b = "CHR ''F''" and c = "CHR ''0''" and d = "CHR ''0''"
      and e = "CHR ''0''" and f = "CHR ''0''" and g = "CHR ''8''" and h = "CHR ''0''"
      and va = 15 and vb = 15 and vc = 0 and vd = 0 and ve = 0 and vf = 0 and vg = 8 and vh = 0]
    color_options_warn_or_parse [where arg = "''1234567''" and opts = default_TextOptions
      and out = "\<lparr>cout = [], cerr = []\<rparr>" and lenient = True]
  by (simp add: text_color_option_def bg_color_option_def outline_color_option_def strip_hash_def
      hexval_def scan_x2_def isspace_def default_TextOptions_def sscanf_x2_numeral Let_def)

text \<open>
  Claim C5 as stated fails: \<^verbatim>\<open>--text-color #FFF\<close> and \<^verbatim>\<open>--outline-color #FFF\<close> do not fail;
  each gives a warning, and the default colour stays in effect.
\<close>

theorem malformed_color_keeps_default:
  "text_color_option True ''#FFF'' (default_TextOptions, \<lparr>cout = [], cerr = []\<rparr>)
   = (default_TextOptions,
      \<lparr>cout = [], cerr = [''Warning: Invalid text color format: FFF (expected #RRGGBB)'']\<rparr>)
   \<and> outline_color_option True ''#FFF'' (default_TextOptions, \<lparr>cout = [], cerr = []\<rparr>)
   = (default_TextOptions,
      \<lparr>cout = [], cerr = [''Warning: Invalid outline color format: FFF (expected #RRGGBB)'']\<rparr>)
   \<and> text_r default_TextOptions = 1 \<and> text_g default_TextOptions = 1
   \<and> text_b default_TextOptions = 1"
  by (simp add: text_color_option_def outline_color_option_def strip_hash_def
      default_TextOptions_def Let_def)

text \<open>
  Claim C6, as amended.  txt2png, when it executes its commands: if the commands of the
  lines before a line succeed and the command of that line returns a code other than 0, the
  run ends at once with exit code 7; it has executed the commands of the earlier lines and
  the failing one and nothing after it, undoes nothing, and writes the return code and the
  whole command, which holds the text of the line and the name of its output file, to
  standard error.  text2png: whatever happens in the renderer, the loop goes through every
  line, prints \<^verbatim>\<open>Created:\<close> for each line that is not empty, and the exit code is 0.
\<close>

theorem render_failure_policy:
  "(\<not> dry_run opt
    \<and> (\<forall>(n, t)\<in>set (txt2png_jobs (lineno st) pre). sys (line_cmd fp opt fnt n t) = 0)
    \<and> trim line \<noteq> []
    \<and> sys (line_cmd fp opt fnt (lineno st + int (length pre)) (trim line)) \<noteq> 0
    \<longrightarrow> txt2png_loop fp sys opt fnt (pre @ line # post) st =
        (let cmds = map (\<lambda>(n, t). line_cmd fp opt fnt n t) (txt2png_jobs (lineno st) pre);
             cmd = line_cmd fp opt fnt (lineno st + int (length pre)) (trim line)
         in (7, st\<lparr>cerr := cerr st
                       @ [''Command failed (rc='' @ to_string (sys cmd) @ ''): '' @ cmd],
                   lineno := lineno st + int (length pre),
                   made := made st + int (length cmds),
                   commands := commands st @ cmds @ [cmd]\<rparr>)))
   \<and> fst (text2png_loop be opts lines st') = 0
   \<and> cout (snd (text2png_loop be opts lines st'))
       = cout st' @ map (\<lambda>(n, l). ''Created: '' @ output_prefix opts @ to_string n @ ''.png'')
                     (text2png_jobs (line_number st') lines)
   \<and> map snd (text2png_jobs (line_number st') lines) = filter (\<lambda>l. l \<noteq> []) lines"
proof (intro conjI impI)
  show "txt2png_loop fp sys opt fnt (pre @ line # post) st =
        (let cmds = map (\<lambda>(n, t). line_cmd fp opt fnt n t) (txt2png_jobs (lineno st) pre);
             cmd = line_cmd fp opt fnt (lineno st + int (length pre)) (trim line)
         in (7, st\<lparr>cerr := cerr st
                       @ [''Command failed (rc='' @ to_string (sys cmd) @ ''): '' @ cmd],
                   lineno := lineno st + int (length pre),
                   made := made st + int (length cmds),
                   commands := commands st @ cmds @ [cmd]\<rparr>))"
    if "\<not> dry_run opt
    \<and> (\<forall>(n, t)\<in>set (txt2png_jobs (lineno st) pre). sys (line_cmd fp opt fnt n t) = 0)
    \<and> trim line \<noteq> []
    \<and> sys (line_cmd fp opt fnt (lineno st + int (length pre)) (trim line)) \<noteq> 0"
    using that by (intro txt2png_first_failure) blast+
  show "fst (text2png_loop be opts lines st') = 0"
    by (simp add: text2png_loop_jobs Let_def)
  show "cout (snd (text2png_loop be opts lines st'))
       = cout st' @ map (\<lambda>(n, l). ''Created: '' @ output_prefix opts @ to_string n @ ''.png'')
                     (text2png_jobs (line_number st') lines)"
    by (simp add: text2png_loop_jobs Let_def)
  show "map snd (text2png_jobs (line_number st') lines) = filter (\<lambda>l. l \<noteq> []) lines"
    by (rule text2png_jobs_lines)
qed


theorem render_failure_policy_witness:
  "txt2png_batch exact_arith (fails_on (line_cmd exact_arith (default_Options\<lparr>im_exe := ''magick''\<rparr>) [] 2 ''two''))
     (default_Options\<lparr>im_exe := ''magick''\<rparr>) [] [''one'', '' two'', ''three'']
   = (7, \<lparr>cout = [],
           cerr = [''Command failed (rc=256): ''
                   @ line_cmd exact_arith (default_Options\<lparr>im_exe := ''magick''\<rparr>) [] 2 ''two''],
           lineno = 2, made = 1,
           commands = [line_cmd exact_arith (default_Options\<lparr>im_exe := ''magick''\<rparr>) [] 1 ''one'',
                       line_cmd exact_arith (default_Options\<lparr>im_exe := ''magick''\<rparr>) [] 2 ''two'']\<rparr>)"
  using render_failure_policy [where fp = exact_arith
      and opt = "default_Options\<lparr>im_exe := ''magick''\<rparr>"
      and st = "txt2png_init (default_Options\<lparr>im_exe := ''magick''\<rparr>)"
      and pre = "[''one'']"
      and sys = "fails_on (line_cmd exact_arith (default_Options\<lparr>im_exe := ''magick''\<rparr>) [] 2 ''two'')"
      and fnt = "[]" and line = "'' two''" and post = "[''three'']"]
  by (simp add: txt2png_batch_def txt2png_init_def default_Options_def fails_on_def line_cmd_def
      build_cmd_stroke_def escape_for_label_def backslash_def dquote_def eval_simps Let_def)

text \<open>
  Claim C6 as stated fails for text2png: with a font that cannot be found the renderer fails
  on the first line, yet the second line is processed too and the exit code is 0.
\<close>

theorem text2png_continues_after_failure:
  "text2png_batch no_font_backend default_TextOptions [''a'', ''b''] =
   (0, \<lparr>cout = [''Created: output1.png'', ''Created: output2.png''],
        cerr = [''Could not find font: DejaVu Sans'', ''Could not find font: DejaVu Sans''],
        line_number = 3, surfaces = [[], []]\<rparr>)"
  by (simp add: text2png_batch_def text2png_init_def render_text_to_png_def no_font_backend_def
      default_TextOptions_def eval_simps)




text \<open>
  Claim C9.  \<open>escape_for_label s\<close> is \<open>s\<close> with one backslash put in front of every
  backslash and every double quote, every other character copied as it is (so also
  the dollar sign, the backquote and the semicolon); the result is at most twice as long
  as \<open>s\<close>; and both command builders put the text into the shell command only through
  \<open>escape_for_label\<close>, so nothing else is escaped.
\<close>

theorem escape_for_label_inserts_backslashes:
  "escape_for_label s =
     concat (map (\<lambda>c. if c = backslash \<or> c = dquote then [backslash, c] else [c]) s)
   \<and> length (escape_for_label s) \<le> 2 * length s
   \<and> (\<exists>pre post. \<forall>text.
         build_cmd_stroke im text fnt psize fill ocol
           thick outp = pre @ escape_for_label text @ post)
   \<and> (\<exists>pre mid post. \<forall>text.
         build_cmd_offset fp im text fnt psize fill ocol
           thick dirs outp
         = pre @ escape_for_label text @ mid @ escape_for_label text @ post)"
  using stroke_ctx offset_ctx
  by (simp add: escape_for_label_def escape_loop_concat length_concat_escape_le)

theorem escape_for_label_witness:
  \<open>escape_for_label ''a\<newline>$`;"'' = ''a\<newline>$`;'' @ [CHR 0x5C, CHR 0x22]\<close>
  using escape_for_label_inserts_backslashes [of \<open>''a\<newline>$`;"''\<close>]
  by (simp add: backslash_def dquote_def)

text \<open>
  Claim C10.  txt2png trims every line before anything else: the trimmed text is the line
  without a whitespace prefix and a whitespace suffix, and when it is not empty it neither
  starts nor ends with whitespace.  A line of whitespace only is skipped: the loop goes on
  with the counter advanced by one and nothing printed, executed or counted.  For any other
  line the command is built from the trimmed text.
\<close>

theorem txt2png_lines_are_trimmed:
  "(\<exists>l r. line = l @ trim line @ r \<and> (\<forall>c\<in>set l. isspace c) \<and> (\<forall>c\<in>set r. isspace c))
   \<and> (trim line \<noteq> [] \<longrightarrow> \<not> isspace (hd (trim line)) \<and> \<not> isspace (last (trim line)))
   \<and> ((\<forall>c\<in>set line. isspace c) \<longrightarrow>
        txt2png_loop fp sys opt fnt (line # rest) st
        = txt2png_loop fp sys opt fnt rest (st\<lparr>lineno := lineno st + 1\<rparr>))
   \<and> (\<not> (\<forall>c\<in>set line. isspace c) \<longrightarrow>
        txt2png_loop fp sys opt fnt (line # rest) st
        = (let cmd = line_cmd fp opt fnt (lineno st) (trim line)
           in if dry_run opt
              then txt2png_loop fp sys opt fnt rest
                     (st\<lparr>cout := cout st @ [cmd], lineno := lineno st + 1\<rparr>)
              else if sys cmd \<noteq> 0
              then (7, st\<lparr>commands := commands st @ [cmd],
                            cerr := cerr st
                              @ [''Command failed (rc='' @ to_string (sys cmd) @ ''): '' @ cmd]\<rparr>)
              else txt2png_loop fp sys opt fnt rest
                     (st\<lparr>commands := commands st @ [cmd], made := made st + 1,
                         lineno := lineno st + 1\<rparr>)))"
proof (intro conjI impI)
  show "\<exists>l r. line = l @ trim line @ r \<and> (\<forall>c\<in>set l. isspace c) \<and> (\<forall>c\<in>set r. isspace c)"
    by (rule trim_decomp)
  show "\<not> isspace (hd (trim line))" if "trim line \<noteq> []"
    using that by (rule trim_ends)
  show "\<not> isspace (last (trim line))" if "trim line \<noteq> []"
    using that by (rule trim_ends)
  show "txt2png_loop fp sys opt fnt (line # rest) st
        = txt2png_loop fp sys opt fnt rest (st\<lparr>lineno := lineno st + 1\<rparr>)"
    if "\<forall>c\<in>set line. isspace c"
  proof -
    from that have "trim line = []" by (simp only: trim_eq_Nil)
    then show ?thesis by simp
  qed
  show "txt2png_loop fp sys opt fnt (line # rest) st
        = (let cmd = line_cmd fp opt fnt (lineno st) (trim line)
           in if dry_run opt
              then txt2png_loop fp sys opt fnt rest
                     (st\<lparr>cout := cout st @ [cmd], lineno := lineno st + 1\<rparr>)
              else if sys cmd \<noteq> 0
              then (7, st\<lparr>commands := commands st @ [cmd],
                            cerr := cerr st
                              @ [''Command failed (rc='' @ to_string (sys cmd) @ ''): '' @ cmd]\<rparr>)
              else txt2png_loop fp sys opt fnt rest
                     (st\<lparr>commands := commands st @ [cmd], made := made st + 1,
                         lineno := lineno st + 1\<rparr>))"
    if "\<not> (\<forall>c\<in>set line. isspace c)"
  proof -
    from that have "trim line \<noteq> []" by (simp only: trim_eq_Nil not_False_eq_True)
    then show ?thesis by (simp add: Let_def)
  qed
qed

theorem txt2png_lines_are_trimmed_witness:
  "trim ''   '' = []
   \<and> txt2png_loop exact_arith (\<lambda>cmd. 0) (default_Options\<lparr>dry_run := True\<rparr>) [] [''   '', ''  Hi there ''] (txt2png_init default_Options)
     = (0, \<lparr>cout = [line_cmd exact_arith (default_Options\<lparr>dry_run := True\<rparr>) [] 2 ''Hi there''], cerr = [], lineno = 3, made = 0, commands = []\<rparr>)"
  using txt2png_lines_are_trimmed [where line = "''   ''" and fp = exact_arith
      and sys = "\<lambda>cmd. 0" and opt = "default_Options\<lparr>dry_run := True\<rparr>" and fnt = "[]"
      and rest = "[''  Hi there '']" and st = "txt2png_init default_Options"]
    txt2png_lines_are_trimmed [where line = "''  Hi there ''" and fp = exact_arith
      and sys = "\<lambda>cmd. 0" and opt = "default_Options\<lparr>dry_run := True\<rparr>" and fnt = "[]"
      and rest = "[]" and st = "(txt2png_init default_Options)\<lparr>lineno := 2\<rparr>"]
  by (simp add: txt2png_init_def default_Options_def eval_simps)

end
